theory Spec2Isabelle
  imports Complex_Main
begin

section \<open>Python values exchanged with the server\<close>

text \<open>
  The SDK is dynamically typed: what travels between the operation groups, the transport
  and the \<^verbatim>\<open>json\<close> module are Python values. A Python \<^verbatim>\<open>float\<close> is a
  finite binary fraction, an infinity or NaN; every finite float is a rational number, and
  the only arithmetic the SDK performs on one is the comparison \<^verbatim>\<open>amount <= 0\<close>.
\<close>

datatype pyfloat = Finite rat | PosInf | NegInf | NaN

text \<open>\<^verbatim>\<open>x <= 0\<close> on a float: false on NaN, as every comparison with NaN is.\<close>

fun float_le_zero :: "pyfloat \<Rightarrow> bool" where
  "float_le_zero (Finite q) = (q \<le> 0)"
| "float_le_zero PosInf = False"
| "float_le_zero NegInf = True"
| "float_le_zero NaN = False"

text \<open>
  \<open>JNull\<close> is Python's \<^verbatim>\<open>None\<close>; a \<^verbatim>\<open>dict\<close> is kept as an association list
  in insertion order and read with \<open>map_of\<close>.
\<close>

datatype json =
    JNull
  | JBool bool
  | JInt int
  | JFloat pyfloat
  | JStr string
  | JArr "json list"
  | JObj "(string \<times> json) list"

text \<open>Python truthiness, as tested by \<^verbatim>\<open>if x:\<close> and \<^verbatim>\<open>not x\<close>.\<close>

fun truthy :: "json \<Rightarrow> bool" where
  "truthy JNull = False"
| "truthy (JBool b) = b"
| "truthy (JInt i) = (i \<noteq> 0)"
| "truthy (JFloat f) = (f \<noteq> Finite 0)"
| "truthy (JStr s) = (s \<noteq> [])"
| "truthy (JArr xs) = (xs \<noteq> [])"
| "truthy (JObj kvs) = (kvs \<noteq> [])"

section \<open>Exceptions (exceptions.py, and the built-in ones the code lets escape)\<close>

datatype error =
    NetLedgerConnectionError string "string option"
    \<comment> \<open>message, cause\<close>
  | NetLedgerApiError int json json
    \<comment> \<open>status code, message, details (\<open>JNull\<close> when there are none)\<close>
  | NetLedgerValidationError string "string option"
    \<comment> \<open>message, parameter name\<close>
  | ValueError string
  | AttributeError string
  | TypeError string
  | KeyError string
  | IndexError string
  | OtherError string
    \<comment> \<open>an exception of the HTTP library that is no \<^verbatim>\<open>RequestException\<close>\<close>

text \<open>\<^verbatim>\<open>d.get(key, default)\<close>: only a \<^verbatim>\<open>dict\<close> has the method.\<close>

fun py_get :: "json \<Rightarrow> string \<Rightarrow> json \<Rightarrow> error + json" where
  "py_get (JObj kvs) k d = Inr (case map_of kvs k of None \<Rightarrow> d | Some v \<Rightarrow> v)"
| "py_get _ k d = Inl (AttributeError ''object has no attribute get'')"

section \<open>Transport (http_client.py)\<close>

record http_request =
  req_method :: string
  req_url :: string
  req_headers :: "(string \<times> string) list"
  req_json :: "json option"
  req_timeout :: rat

text \<open>
  What the code reads of a \<^verbatim>\<open>requests.Response\<close>: \<open>resp_json\<close> is the value of
  \<^verbatim>\<open>response.json()\<close>, \<open>None\<close> when that call raises \<^verbatim>\<open>ValueError\<close>;
  \<open>resp_headers\<close> is the case-insensitive \<^verbatim>\<open>response.headers.get\<close>.
\<close>

record http_response =
  resp_status_code :: int
  resp_reason :: "string option"
  resp_text :: string
  resp_json :: "json option"
  resp_headers :: "string \<Rightarrow> string option"

text \<open>
  What one call of \<^verbatim>\<open>session.request\<close> or \<^verbatim>\<open>session.head\<close> can do: answer,
  raise \<^verbatim>\<open>requests.exceptions.Timeout\<close>, raise another
  \<^verbatim>\<open>RequestException\<close>, or raise some other \<^verbatim>\<open>Exception\<close>.
\<close>

datatype transport_outcome =
    Responded http_response
  | Timeout
  | RequestException string
  | OtherException string

text \<open>
  The network and the server behind it: the outcome of a request may depend on every
  request sent before it. The list of requests sent so far is the only state the
  operations thread through.
\<close>

type_synonym network = "http_request list \<Rightarrow> http_request \<Rightarrow> transport_outcome"

record ApiResponse =
  data :: json
  status_code :: int
  request_guid :: "string option"

record HttpClient =
  base_url :: string
  api_key :: string
  timeout :: rat

definition rstrip_slash :: "string \<Rightarrow> string" where
  "rstrip_slash s = rev (dropWhile (\<lambda>c. c = CHR ''/'') (rev s))"

definition HttpClient_init :: "string \<Rightarrow> string \<Rightarrow> rat \<Rightarrow> HttpClient" where
  "HttpClient_init url key timeout_seconds =
     \<lparr>base_url = rstrip_slash url, api_key = key, timeout = timeout_seconds\<rparr>"

definition session_headers :: "HttpClient \<Rightarrow> (string \<times> string) list" where
  "session_headers c =
     [(''Authorization'', ''Bearer '' @ api_key c),
      (''Accept'', ''application/json''),
      (''Content-Type'', ''application/json'')]"

text \<open>
  \<^verbatim>\<open>str.isspace\<close> on the code points below 256, and \<^verbatim>\<open>str.strip()\<close>.
\<close>

definition is_space :: "char \<Rightarrow> bool" where
  "is_space c = (of_char c \<in> {9, 10, 11, 12, 13, 28, 29, 30, 31, 32, 133, 160 :: nat})"

definition py_strip :: "string \<Rightarrow> string" where
  "py_strip s = rev (dropWhile is_space (rev (dropWhile is_space s)))"

text \<open>
  The request a call puts on the wire: the URL is \<^verbatim>\<open>f'{self.base_url}{path}'\<close>, a
  body is attached as \<^verbatim>\<open>json=body\<close> only when it is not \<^verbatim>\<open>None\<close>.
\<close>

definition build_request :: "HttpClient \<Rightarrow> string \<Rightarrow> string \<Rightarrow> json \<Rightarrow> http_request" where
  "build_request c method path body =
     \<lparr>req_method = method, req_url = base_url c @ path,
      req_headers = session_headers c,
      req_json = (if body \<noteq> JNull then Some body else None),
      req_timeout = timeout c\<rparr>"

definition HttpClient_head ::
  "HttpClient \<Rightarrow> network \<Rightarrow> http_request list \<Rightarrow> string \<Rightarrow> (error + bool) \<times> http_request list" where
  "HttpClient_head c net sent path =
     (let req = build_request c ''HEAD'' path JNull
      in (case net sent req of
            Responded r \<Rightarrow> Inr (200 \<le> resp_status_code r \<and> resp_status_code r < 300)
          | Timeout \<Rightarrow> Inl (NetLedgerConnectionError ''Request timed out'' None)
          | RequestException e \<Rightarrow>
              Inl (NetLedgerConnectionError ''Failed to connect to the server'' (Some e))
          | OtherException e \<Rightarrow> Inl (OtherError e),
          sent @ [req]))"

definition reason_or_unknown :: "http_response \<Rightarrow> string" where
  \<comment> \<open>\<^verbatim>\<open>response.reason or 'Unknown error'\<close>\<close>
  "reason_or_unknown r =
     (case resp_reason r of
        None \<Rightarrow> ''Unknown error''
      | Some s \<Rightarrow> if s = [] then ''Unknown error'' else s)"

text \<open>
  The body of \<^verbatim>\<open>_request\<close> after \<^verbatim>\<open>session.request\<close> has answered. In the
  error branch \<^verbatim>\<open>error_data.get\<close> is called on whatever the body parsed to, and the
  handler catches \<^verbatim>\<open>ValueError\<close> and \<^verbatim>\<open>KeyError\<close> only.
\<close>

definition handle_response :: "http_response \<Rightarrow> error + ApiResponse" where
  "handle_response r =
     (if \<not> (200 \<le> resp_status_code r \<and> resp_status_code r < 300) then
        (let error_message = JStr (reason_or_unknown r)
         in case resp_json r of
              None \<Rightarrow> Inl (NetLedgerApiError (resp_status_code r) error_message JNull)
            | Some error_data \<Rightarrow>
                (case py_get error_data ''message'' error_message of
                   Inl e \<Rightarrow> Inl e
                 | Inr m \<Rightarrow>
                     (case py_get error_data ''description'' JNull of
                        Inl e \<Rightarrow> Inl e
                      | Inr d \<Rightarrow> Inl (NetLedgerApiError (resp_status_code r) m d))))
      else
        (let rg = resp_headers r ''x-request-guid''
         in if resp_text r = [] \<or> py_strip (resp_text r) = [] then
              Inr \<lparr>data = JNull, status_code = resp_status_code r, request_guid = rg\<rparr>
            else
              (case resp_json r of
                 Some d \<Rightarrow> Inr \<lparr>data = d, status_code = resp_status_code r, request_guid = rg\<rparr>
               | None \<Rightarrow>
                   Inl (NetLedgerApiError (resp_status_code r)
                          (JStr ''Failed to parse response'') JNull))))"

definition HttpClient_request ::
  "HttpClient \<Rightarrow> network \<Rightarrow> http_request list \<Rightarrow> string \<Rightarrow> string \<Rightarrow> json
     \<Rightarrow> (error + ApiResponse) \<times> http_request list" where
  "HttpClient_request c net sent method path body =
     (let req = build_request c method path body
      in (case net sent req of
            Responded r \<Rightarrow> handle_response r
          | Timeout \<Rightarrow> Inl (NetLedgerConnectionError ''Request timed out'' None)
          | RequestException e \<Rightarrow>
              Inl (NetLedgerConnectionError ''Failed to connect to the server'' (Some e))
          | OtherException e \<Rightarrow> Inl (OtherError e),
          sent @ [req]))"

definition HttpClient_get ::
  "HttpClient \<Rightarrow> network \<Rightarrow> http_request list \<Rightarrow> string
     \<Rightarrow> (error + ApiResponse) \<times> http_request list" where
  "HttpClient_get c net sent path = HttpClient_request c net sent ''GET'' path JNull"

definition HttpClient_put ::
  "HttpClient \<Rightarrow> network \<Rightarrow> http_request list \<Rightarrow> string \<Rightarrow> json
     \<Rightarrow> (error + ApiResponse) \<times> http_request list" where
  "HttpClient_put c net sent path body = HttpClient_request c net sent ''PUT'' path body"

definition HttpClient_post ::
  "HttpClient \<Rightarrow> network \<Rightarrow> http_request list \<Rightarrow> string \<Rightarrow> json
     \<Rightarrow> (error + ApiResponse) \<times> http_request list" where
  "HttpClient_post c net sent path body = HttpClient_request c net sent ''POST'' path body"

section \<open>Service and account operations (methods/service.py, methods/account.py)\<close>

text \<open>\<^verbatim>\<open>except Exception: return False\<close> catches whatever \<^verbatim>\<open>head\<close> raises.\<close>

definition ServiceMethods_health_check ::
  "HttpClient \<Rightarrow> network \<Rightarrow> http_request list \<Rightarrow> (error + bool) \<times> http_request list" where
  "ServiceMethods_health_check c net sent =
     (case HttpClient_head c net sent ''/'' of
        (Inr b, sent') \<Rightarrow> (Inr b, sent')
      | (Inl e, sent') \<Rightarrow> (Inr False, sent'))"

definition AccountMethods_exists ::
  "HttpClient \<Rightarrow> network \<Rightarrow> http_request list \<Rightarrow> string
     \<Rightarrow> (error + bool) \<times> http_request list" where
  "AccountMethods_exists c net sent account_guid =
     HttpClient_head c net sent (''/v1/accounts/'' @ account_guid)"

section \<open>Domain model (models.py)\<close>

datatype EntryType = CREDIT | DEBIT | BALANCE

fun EntryType_value :: "EntryType \<Rightarrow> int" where
  "EntryType_value CREDIT = 0"
| "EntryType_value DEBIT = 1"
| "EntryType_value BALANCE = 2"

datatype EnumerationOrder =
  CREATED_ASCENDING | CREATED_DESCENDING | AMOUNT_ASCENDING | AMOUNT_DESCENDING

fun EnumerationOrder_value :: "EnumerationOrder \<Rightarrow> int" where
  "EnumerationOrder_value CREATED_ASCENDING = 0"
| "EnumerationOrder_value CREATED_DESCENDING = 1"
| "EnumerationOrder_value AMOUNT_ASCENDING = 2"
| "EnumerationOrder_value AMOUNT_DESCENDING = 3"

text \<open>
  \<^verbatim>\<open>EntryType(x)\<close>: the member whose value equals \<open>x\<close>, \<^verbatim>\<open>ValueError\<close> when
  there is none. Python's equality makes \<^verbatim>\<open>True == 1\<close> and \<^verbatim>\<open>1.0 == 1\<close>.
\<close>

definition EntryType_of_int :: "int \<Rightarrow> error + EntryType" where
  "EntryType_of_int i =
     (if i = 0 then Inr CREDIT else if i = 1 then Inr DEBIT else if i = 2 then Inr BALANCE
      else Inl (ValueError ''not a valid EntryType''))"

fun EntryType_of :: "json \<Rightarrow> error + EntryType" where
  "EntryType_of (JInt i) = EntryType_of_int i"
| "EntryType_of (JBool b) = EntryType_of_int (if b then 1 else 0)"
| "EntryType_of (JFloat (Finite q)) =
     (if q = 0 then Inr CREDIT else if q = 1 then Inr DEBIT else if q = 2 then Inr BALANCE
      else Inl (ValueError ''not a valid EntryType''))"
| "EntryType_of _ = Inl (ValueError ''not a valid EntryType'')"

text \<open>The \<^verbatim>\<open>type_map\<close> of \<^verbatim>\<open>Entry.from_dict\<close> and its \<^verbatim>\<open>.get(raw, 0)\<close>.\<close>

definition type_map :: "(string \<times> int) list" where
  "type_map = [(''Credit'', 0), (''Debit'', 1), (''Balance'', 2)]"

text \<open>
  The first statement block of \<^verbatim>\<open>Entry.from_dict\<close>: the discriminator is read with
  default 0, looked up by name when it is a string and by value otherwise.
\<close>

definition decode_entry_type :: "json \<Rightarrow> error + EntryType" where
  "decode_entry_type dct =
     (case py_get dct ''Type'' (JInt 0) of
        Inl e \<Rightarrow> Inl e
      | Inr entry_type_raw \<Rightarrow>
          (case entry_type_raw of
             JStr s \<Rightarrow> EntryType_of_int (case map_of type_map s of None \<Rightarrow> 0 | Some v \<Rightarrow> v)
           | _ \<Rightarrow> EntryType_of entry_type_raw))"

record Entry =
  guid :: json
  account_guid :: json
  entry_type :: EntryType
  amount :: pyfloat
  description :: json
  replaces :: json
  is_committed :: json
  committed_by_guid :: json
  committed_utc :: json
  created_utc :: json

text \<open>Reading a key of a value already known to be a \<^verbatim>\<open>dict\<close>.\<close>

definition dict_get :: "(string \<times> json) list \<Rightarrow> string \<Rightarrow> json \<Rightarrow> json" where
  "dict_get kvs k d = (case map_of kvs k of None \<Rightarrow> d | Some v \<Rightarrow> v)"

text \<open>
  The built-in \<^verbatim>\<open>float(x)\<close> is not part of the SDK; the decoders take it as the
  argument \<open>pyfloat_of\<close>.
\<close>

definition Entry_from_dict :: "(json \<Rightarrow> error + pyfloat) \<Rightarrow> json \<Rightarrow> error + Entry" where
  "Entry_from_dict pyfloat_of dct =
     (case decode_entry_type dct of
        Inl e \<Rightarrow> Inl e
      | Inr t \<Rightarrow>
          (case dct of
             JObj kvs \<Rightarrow>
               (case pyfloat_of (dict_get kvs ''Amount'' (JInt 0)) of
                  Inl e \<Rightarrow> Inl e
                | Inr a \<Rightarrow>
                    Inr \<lparr>guid = dict_get kvs ''GUID'' (JStr []),
                         account_guid = dict_get kvs ''AccountGUID'' (JStr []),
                         entry_type = t,
                         amount = a,
                         description = dict_get kvs ''Description'' JNull,
                         replaces = dict_get kvs ''Replaces'' JNull,
                         is_committed = dict_get kvs ''IsCommitted'' (JBool False),
                         committed_by_guid = dict_get kvs ''CommittedByGUID'' JNull,
                         committed_utc = dict_get kvs ''CommittedUtc'' JNull,
                         created_utc = dict_get kvs ''CreatedUtc'' JNull\<rparr>)
           | _ \<Rightarrow> Inl (AttributeError ''object has no attribute get'')))"

record EntryInput =
  ei_amount :: pyfloat
  ei_description :: "string option"

text \<open>
  A list comprehension over decoders: the first exception ends it. \<^verbatim>\<open>for o in x\<close>
  walks a list, the characters of a string or the keys of a dict, and raises
  \<^verbatim>\<open>TypeError\<close> on anything else.
\<close>

fun map_result :: "('a \<Rightarrow> error + 'b) \<Rightarrow> 'a list \<Rightarrow> error + 'b list" where
  "map_result f [] = Inr []"
| "map_result f (x # xs) =
     (case f x of
        Inl e \<Rightarrow> Inl e
      | Inr y \<Rightarrow> (case map_result f xs of Inl e \<Rightarrow> Inl e | Inr ys \<Rightarrow> Inr (y # ys)))"

fun py_iter :: "json \<Rightarrow> error + json list" where
  "py_iter (JArr xs) = Inr xs"
| "py_iter (JStr s) = Inr (map (\<lambda>c. JStr [c]) s)"
| "py_iter (JObj kvs) = Inr (map (\<lambda>kv. JStr (fst kv)) kvs)"
| "py_iter _ = Inl (TypeError ''object is not iterable'')"

record PendingTransactionSummary =
  pts_count :: json
  pts_total :: pyfloat
  pts_entries :: "Entry list option"

definition PendingTransactionSummary_from_dict ::
  "(json \<Rightarrow> error + pyfloat) \<Rightarrow> json \<Rightarrow> error + PendingTransactionSummary" where
  "PendingTransactionSummary_from_dict pyfloat_of dct =
     (case dct of
        JObj kvs \<Rightarrow>
          (case (if truthy (dict_get kvs ''Entries'' JNull)
                 then (case py_iter (dict_get kvs ''Entries'' JNull) of
                         Inl e \<Rightarrow> Inl e
                       | Inr os \<Rightarrow> map_sum id Some (map_result (Entry_from_dict pyfloat_of) os))
                 else Inr None) of
             Inl e \<Rightarrow> Inl e
           | Inr es \<Rightarrow>
               (case pyfloat_of (dict_get kvs ''Total'' (JInt 0)) of
                  Inl e \<Rightarrow> Inl e
                | Inr t \<Rightarrow>
                    Inr \<lparr>pts_count = dict_get kvs ''Count'' (JInt 0), pts_total = t,
                         pts_entries = es\<rparr>))
      | _ \<Rightarrow> Inl (AttributeError ''object has no attribute get''))"

record Balance =
  bal_account_guid :: json
  committed_balance :: pyfloat
  pending_balance :: pyfloat
  pending_credits :: "PendingTransactionSummary option"
  pending_debits :: "PendingTransactionSummary option"

text \<open>An optional nested summary: decoded only when the key holds a truthy value.\<close>

definition optional_summary ::
  "(json \<Rightarrow> error + pyfloat) \<Rightarrow> (string \<times> json) list \<Rightarrow> string
     \<Rightarrow> error + PendingTransactionSummary option" where
  "optional_summary pyfloat_of kvs k =
     (if truthy (dict_get kvs k JNull)
      then map_sum id Some (PendingTransactionSummary_from_dict pyfloat_of (dict_get kvs k JNull))
      else Inr None)"

definition Balance_from_dict :: "(json \<Rightarrow> error + pyfloat) \<Rightarrow> json \<Rightarrow> error + Balance" where
  "Balance_from_dict pyfloat_of dct =
     (case dct of
        JObj kvs \<Rightarrow>
          (case optional_summary pyfloat_of kvs ''PendingCredits'' of
             Inl e \<Rightarrow> Inl e
           | Inr pc \<Rightarrow>
               (case optional_summary pyfloat_of kvs ''PendingDebits'' of
                  Inl e \<Rightarrow> Inl e
                | Inr pd \<Rightarrow>
                    (case pyfloat_of (dict_get kvs ''CommittedBalance'' (JInt 0)) of
                       Inl e \<Rightarrow> Inl e
                     | Inr cb \<Rightarrow>
                         (case pyfloat_of (dict_get kvs ''PendingBalance'' (JInt 0)) of
                            Inl e \<Rightarrow> Inl e
                          | Inr pb \<Rightarrow>
                              Inr \<lparr>bal_account_guid = dict_get kvs ''AccountGUID'' (JStr []),
                                   committed_balance = cb, pending_balance = pb,
                                   pending_credits = pc, pending_debits = pd\<rparr>))))
      | _ \<Rightarrow> Inl (AttributeError ''object has no attribute get''))"

text \<open>
  \<^verbatim>\<open>EnumerationResult.objects\<close> is \<^verbatim>\<open>None\<close>, the decoded list (a factory was
  given), or the raw \<^verbatim>\<open>data["Objects"]\<close> (no factory).
\<close>

datatype 'a objects = ObjNone | ObjDecoded "'a list" | ObjRaw json

record 'a EnumerationResult =
  total_records :: json
  records_remaining :: json
  end_of_results :: json
  continuation_token :: json
  objects :: "'a objects"

text \<open>The dataclass defaults: \<^verbatim>\<open>EnumerationResult()\<close>.\<close>

definition EnumerationResult_default :: "'a EnumerationResult" where
  "EnumerationResult_default =
     \<lparr>total_records = JInt 0, records_remaining = JInt 0, end_of_results = JBool True,
      continuation_token = JNull, objects = ObjNone\<rparr>"

definition EnumerationResult_from_dict ::
  "json \<Rightarrow> (json \<Rightarrow> error + 'a) option \<Rightarrow> error + 'a EnumerationResult" where
  "EnumerationResult_from_dict dct object_factory =
     (case dct of
        JObj kvs \<Rightarrow>
          (case (if truthy (dict_get kvs ''Objects'' JNull)
                 then (case object_factory of
                         Some f \<Rightarrow>
                           (case py_iter (dict_get kvs ''Objects'' JNull) of
                              Inl e \<Rightarrow> Inl e
                            | Inr os \<Rightarrow> map_sum id ObjDecoded (map_result f os))
                       | None \<Rightarrow> Inr (ObjRaw (dict_get kvs ''Objects'' JNull)))
                 else Inr ObjNone) of
             Inl e \<Rightarrow> Inl e
           | Inr objs \<Rightarrow>
               Inr \<lparr>total_records = dict_get kvs ''TotalRecords'' (JInt 0),
                    records_remaining = dict_get kvs ''RecordsRemaining'' (JInt 0),
                    end_of_results = dict_get kvs ''EndOfResults'' (JBool True),
                    continuation_token = dict_get kvs ''ContinuationToken'' JNull,
                    objects = objs\<rparr>)
      | _ \<Rightarrow> Inl (AttributeError ''object has no attribute get''))"

record EntryEnumerationQuery =
  max_results :: int
  q_continuation_token :: "string option"
  created_after_utc :: "string option"
  created_before_utc :: "string option"
  amount_min :: "pyfloat option"
  amount_max :: "pyfloat option"
  ordering :: EnumerationOrder

definition EntryEnumerationQuery_default :: EntryEnumerationQuery where
  "EntryEnumerationQuery_default =
     \<lparr>max_results = 100, q_continuation_token = None, created_after_utc = None,
      created_before_utc = None, amount_min = None, amount_max = None,
      ordering = CREATED_DESCENDING\<rparr>"

text \<open>
  \<^verbatim>\<open>if self.continuation_token:\<close> tests the truth value of an optional string, so
  \<^verbatim>\<open>None\<close> and the empty string both fail it; the amounts are tested with
  \<^verbatim>\<open>is not None\<close>.
\<close>

definition str_entry :: "string \<Rightarrow> string option \<Rightarrow> (string \<times> json) list" where
  "str_entry k v = (case v of None \<Rightarrow> [] | Some s \<Rightarrow> if s \<noteq> [] then [(k, JStr s)] else [])"

definition float_entry :: "string \<Rightarrow> pyfloat option \<Rightarrow> (string \<times> json) list" where
  "float_entry k v = (case v of None \<Rightarrow> [] | Some f \<Rightarrow> [(k, JFloat f)])"

definition EntryEnumerationQuery_to_dict :: "EntryEnumerationQuery \<Rightarrow> (string \<times> json) list" where
  "EntryEnumerationQuery_to_dict q =
     [(''MaxResults'', JInt (max_results q)),
      (''Ordering'', JInt (EnumerationOrder_value (ordering q)))]
     @ str_entry ''ContinuationToken'' (q_continuation_token q)
     @ str_entry ''CreatedAfterUtc'' (created_after_utc q)
     @ str_entry ''CreatedBeforeUtc'' (created_before_utc q)
     @ float_entry ''AmountMinimum'' (amount_min q)
     @ float_entry ''AmountMaximum'' (amount_max q)"

section \<open>Entry operations (methods/entry.py)\<close>

text \<open>
  \<^verbatim>\<open>x[0]\<close> on a value already known to be truthy: the first element of a list, the
  first character of a string; a dict decoded from JSON has no key \<^verbatim>\<open>0\<close>, and
  numbers and booleans are not subscriptable.
\<close>

fun py_first :: "json \<Rightarrow> error + json" where
  "py_first (JArr (x # xs)) = Inr x"
| "py_first (JArr []) = Inl (IndexError ''list index out of range'')"
| "py_first (JStr (c # cs)) = Inr (JStr [c])"
| "py_first (JStr []) = Inl (IndexError ''string index out of range'')"
| "py_first (JObj kvs) = Inl (KeyError ''0'')"
| "py_first _ = Inl (TypeError ''object is not subscriptable'')"

text \<open>The single-entry payload: \<^verbatim>\<open>Notes\<close> is added when the description is truthy.\<close>

definition single_entry_body :: "pyfloat \<Rightarrow> string option \<Rightarrow> json" where
  "single_entry_body amt descr =
     JObj ([(''Amount'', JFloat amt)]
           @ (case descr of None \<Rightarrow> [] | Some s \<Rightarrow> if s \<noteq> [] then [(''Notes'', JStr s)] else []))"

text \<open>What \<^verbatim>\<open>add_credit\<close> and \<^verbatim>\<open>add_debit\<close> do with the transport's answer.\<close>

definition first_entry_guid :: "error + ApiResponse \<Rightarrow> error + json" where
  "first_entry_guid res =
     (case res of
        Inl e \<Rightarrow> Inl e
      | Inr response \<Rightarrow>
          if \<not> truthy (data response) then Inl (ValueError ''No data returned from server'')
          else (case py_get (data response) ''EntryGuids'' (JArr []) of
                  Inl e \<Rightarrow> Inl e
                | Inr entry_guids \<Rightarrow>
                    if \<not> truthy entry_guids
                    then Inl (ValueError ''No entry GUID returned from server'')
                    else py_first entry_guids))"

definition EntryMethods_add_credit ::
  "HttpClient \<Rightarrow> network \<Rightarrow> http_request list \<Rightarrow> string \<Rightarrow> pyfloat \<Rightarrow> string option
     \<Rightarrow> (error + json) \<times> http_request list" where
  "EntryMethods_add_credit c net sent acct amt descr =
     (if float_le_zero amt
      then (Inl (NetLedgerValidationError ''Amount must be greater than zero'' (Some ''amount'')),
            sent)
      else (case HttpClient_put c net sent (''/v1/accounts/'' @ acct @ ''/credits'')
                   (single_entry_body amt descr) of
              (res, sent') \<Rightarrow> (first_entry_guid res, sent')))"

definition EntryMethods_add_debit ::
  "HttpClient \<Rightarrow> network \<Rightarrow> http_request list \<Rightarrow> string \<Rightarrow> pyfloat \<Rightarrow> string option
     \<Rightarrow> (error + json) \<times> http_request list" where
  "EntryMethods_add_debit c net sent acct amt descr =
     (if float_le_zero amt
      then (Inl (NetLedgerValidationError ''Amount must be greater than zero'' (Some ''amount'')),
            sent)
      else (case HttpClient_put c net sent (''/v1/accounts/'' @ acct @ ''/debits'')
                   (single_entry_body amt descr) of
              (res, sent') \<Rightarrow> (first_entry_guid res, sent')))"

text \<open>
  The batch payload: every entry carries \<^verbatim>\<open>Notes\<close>, \<^verbatim>\<open>None\<close> included.
\<close>

definition batch_body :: "EntryInput list \<Rightarrow> json" where
  "batch_body entries =
     JObj [(''Entries'',
            JArr (map (\<lambda>e. JObj [(''Amount'', JFloat (ei_amount e)),
                                 (''Notes'', (case ei_description e of
                                                None \<Rightarrow> JNull | Some s \<Rightarrow> JStr s))])
                      entries))]"

text \<open>What \<^verbatim>\<open>add_credits\<close> and \<^verbatim>\<open>add_debits\<close> do with the transport's answer.\<close>

definition all_entry_guids :: "error + ApiResponse \<Rightarrow> error + json" where
  "all_entry_guids res =
     (case res of
        Inl e \<Rightarrow> Inl e
      | Inr response \<Rightarrow>
          if \<not> truthy (data response) then Inr (JArr [])
          else py_get (data response) ''EntryGuids'' (JArr []))"

definition EntryMethods_add_credits ::
  "HttpClient \<Rightarrow> network \<Rightarrow> http_request list \<Rightarrow> string \<Rightarrow> EntryInput list
     \<Rightarrow> (error + json) \<times> http_request list" where
  "EntryMethods_add_credits c net sent acct entries =
     (if entries = []
      then (Inl (NetLedgerValidationError ''Entries list cannot be empty'' (Some ''entries'')),
            sent)
      else if list_ex (\<lambda>e. float_le_zero (ei_amount e)) entries
      then (Inl (NetLedgerValidationError ''All amounts must be greater than zero''
                   (Some ''entries'')), sent)
      else (case HttpClient_put c net sent (''/v1/accounts/'' @ acct @ ''/credits'')
                   (batch_body entries) of
              (res, sent') \<Rightarrow> (all_entry_guids res, sent')))"

definition EntryMethods_add_debits ::
  "HttpClient \<Rightarrow> network \<Rightarrow> http_request list \<Rightarrow> string \<Rightarrow> EntryInput list
     \<Rightarrow> (error + json) \<times> http_request list" where
  "EntryMethods_add_debits c net sent acct entries =
     (if entries = []
      then (Inl (NetLedgerValidationError ''Entries list cannot be empty'' (Some ''entries'')),
            sent)
      else if list_ex (\<lambda>e. float_le_zero (ei_amount e)) entries
      then (Inl (NetLedgerValidationError ''All amounts must be greater than zero''
                   (Some ''entries'')), sent)
      else (case HttpClient_put c net sent (''/v1/accounts/'' @ acct @ ''/debits'')
                   (batch_body entries) of
              (res, sent') \<Rightarrow> (all_entry_guids res, sent')))"

definition EntryMethods_enumerate ::
  "(json \<Rightarrow> error + pyfloat) \<Rightarrow> HttpClient \<Rightarrow> network \<Rightarrow> http_request list \<Rightarrow> string
     \<Rightarrow> EntryEnumerationQuery option
     \<Rightarrow> (error + Entry EnumerationResult) \<times> http_request list" where
  "EntryMethods_enumerate pyfloat_of c net sent acct query =
     (let q = (case query of None \<Rightarrow> EntryEnumerationQuery_default | Some q \<Rightarrow> q)
      in (case HttpClient_post c net sent (''/v1/accounts/'' @ acct @ ''/entries/enumerate'')
                 (JObj (EntryEnumerationQuery_to_dict q)) of
            (Inl e, sent') \<Rightarrow> (Inl e, sent')
          | (Inr response, sent') \<Rightarrow>
              (if \<not> truthy (data response) then Inr EnumerationResult_default
               else EnumerationResult_from_dict (data response)
                      (Some (Entry_from_dict pyfloat_of)),
               sent')))"

section \<open>Balance operations (methods/balance.py)\<close>

definition BalanceMethods_commit ::
  "(json \<Rightarrow> error + pyfloat) \<Rightarrow> HttpClient \<Rightarrow> network \<Rightarrow> http_request list \<Rightarrow> string
     \<Rightarrow> string list option \<Rightarrow> (error + Balance) \<times> http_request list" where
  "BalanceMethods_commit pyfloat_of c net sent acct entry_guids =
     (let body = (case entry_guids of
                    None \<Rightarrow> JNull
                  | Some gs \<Rightarrow> if gs \<noteq> [] then JObj [(''EntryGuids'', JArr (map JStr gs))]
                               else JNull)
      in (case HttpClient_post c net sent (''/v1/accounts/'' @ acct @ ''/commit'') body of
            (Inl e, sent') \<Rightarrow> (Inl e, sent')
          | (Inr response, sent') \<Rightarrow>
              (if \<not> truthy (data response) then Inl (ValueError ''No data returned from server'')
               else Balance_from_dict pyfloat_of (data response),
               sent')))"

text \<open>
  \<^verbatim>\<open>verify\<close> catches \<^verbatim>\<open>NetLedgerApiError\<close> only, answers \<^verbatim>\<open>False\<close> on
  status 409 and re-raises every other one.
\<close>

definition BalanceMethods_verify ::
  "HttpClient \<Rightarrow> network \<Rightarrow> http_request list \<Rightarrow> string
     \<Rightarrow> (error + bool) \<times> http_request list" where
  "BalanceMethods_verify c net sent acct =
     (case HttpClient_get c net sent (''/v1/accounts/'' @ acct @ ''/verify'') of
        (Inr response, sent') \<Rightarrow> (Inr (status_code response = 200), sent')
      | (Inl (NetLedgerApiError st m d), sent') \<Rightarrow>
          (if st = 409 then Inr False else Inl (NetLedgerApiError st m d), sent')
      | (Inl e, sent') \<Rightarrow> (Inl e, sent'))"

section \<open>Sample inputs\<close>

text \<open>
  A client, a header table without entries, and the network on which every request has the
  same outcome; the concrete instances below are built from them.
\<close>

definition sample_client :: HttpClient where
  "sample_client = HttpClient_init ''http://localhost:8080/'' ''key'' 30"

definition no_headers :: "string \<Rightarrow> string option" where
  "no_headers k = None"

definition constant_network :: "transport_outcome \<Rightarrow> network" where
  "constant_network out sent req = out"

definition sample_response :: "int \<Rightarrow> string \<Rightarrow> string \<Rightarrow> json option \<Rightarrow> http_response" where
  "sample_response st rs txt js =
     \<lparr>resp_status_code = st, resp_reason = Some rs, resp_text = txt, resp_json = js,
      resp_headers = no_headers\<rparr>"

text \<open>
  \<^verbatim>\<open>float(x)\<close> on the numbers a JSON document carries, for the concrete instances; the
  decoders themselves take the conversion as an argument.
\<close>

fun float_of_number :: "json \<Rightarrow> error + pyfloat" where
  "float_of_number (JInt i) = Inr (Finite (of_int i))"
| "float_of_number (JFloat f) = Inr f"
| "float_of_number (JBool b) = Inr (Finite (if b then 1 else 0))"
| "float_of_number _ = Inl (TypeError ''float() argument must be a string or a real number'')"

section \<open>Following continuation tokens\<close>

text \<open>
  The loop of \<^verbatim>\<open>test_pagination_preserves_ordering\<close> in tests/test_harness.py, which
  walks an enumeration to its end: a page without objects ends it, a page that reports
  the end of the results or carries no token is the last one, and otherwise the token of
  the page is put into the query and the next page is fetched. The test keeps the amounts
  of the entries; here the pages themselves are kept, and the query sent again is the
  first query with the token set. The server decides how often the loop runs, so the
  number of further requests is bounded by \<open>fuel\<close>, and \<open>None\<close> is the loop that has not
  ended within it.
\<close>

definition next_query :: "EntryEnumerationQuery \<Rightarrow> json \<Rightarrow> EntryEnumerationQuery" where
  "next_query q tok =
     q\<lparr>q_continuation_token := (case tok of JStr s \<Rightarrow> Some s | _ \<Rightarrow> None)\<rparr>"

fun follow_pages ::
  "nat \<Rightarrow> (json \<Rightarrow> error + pyfloat) \<Rightarrow> HttpClient \<Rightarrow> network \<Rightarrow> string \<Rightarrow> EntryEnumerationQuery
     \<Rightarrow> Entry EnumerationResult \<Rightarrow> http_request list
     \<Rightarrow> (error + Entry EnumerationResult list) option \<times> http_request list" where
  "follow_pages fuel pyfloat_of c net acct q result sent =
     (case objects result of
        ObjDecoded (x # xs) \<Rightarrow>
          if truthy (end_of_results result) \<or> \<not> truthy (continuation_token result)
          then (Some (Inr [result]), sent)
          else (case fuel of
                  0 \<Rightarrow> (None, sent)
                | Suc n \<Rightarrow>
                    (case EntryMethods_enumerate pyfloat_of c net sent acct
                            (Some (next_query q (continuation_token result))) of
                       (Inl e, sent') \<Rightarrow> (Some (Inl e), sent')
                     | (Inr result', sent') \<Rightarrow>
                         (case follow_pages n pyfloat_of c net acct q result' sent' of
                            (Some (Inr ps), sent'') \<Rightarrow> (Some (Inr (result # ps)), sent'')
                          | other \<Rightarrow> other)))
      | _ \<Rightarrow> (Some (Inr []), sent))"

definition enumerate_all_pages ::
  "nat \<Rightarrow> (json \<Rightarrow> error + pyfloat) \<Rightarrow> HttpClient \<Rightarrow> network \<Rightarrow> http_request list \<Rightarrow> string
     \<Rightarrow> EntryEnumerationQuery
     \<Rightarrow> (error + Entry EnumerationResult list) option \<times> http_request list" where
  "enumerate_all_pages fuel pyfloat_of c net sent acct q =
     (case EntryMethods_enumerate pyfloat_of c net sent acct (Some q) of
        (Inl e, sent') \<Rightarrow> (Some (Inl e), sent')
      | (Inr result, sent') \<Rightarrow> follow_pages fuel pyfloat_of c net acct q result sent')"

text \<open>The objects of a page as \<^verbatim>\<open>for entry in result.objects\<close> walks them.\<close>

definition page_items :: "'a EnumerationResult \<Rightarrow> 'a list" where
  "page_items result = (case objects result of ObjDecoded xs \<Rightarrow> xs | _ \<Rightarrow> [])"

section \<open>The enumeration endpoint of the server\<close>

text \<open>
  Modelled from the spec: the server's endpoint
  \<^verbatim>\<open>POST /v1/accounts/{guid}/entries/enumerate\<close>, which is not under src/. The spec
  gives its contract: a page holds at most \<open>MaxResults\<close> records of the records that match
  the query, in the query's order; \<open>TotalRecords = RecordsRemaining +\<close> the count already
  delivered across all pages so far; \<open>EndOfResults\<close> is true iff \<open>RecordsRemaining\<close> is 0;
  the continuation token is an opaque cursor, and passing it back requests the next page
  under the same query. Here \<open>recs\<close> are the matching records in order, as the server
  writes them on the wire, and \<open>k\<close> is the number of records delivered before the page;
  \<open>enc\<close> and \<open>dec\<close> are the server's way of writing and reading a cursor.
\<close>

definition enumeration_page :: "(nat \<Rightarrow> string) \<Rightarrow> json list \<Rightarrow> nat \<Rightarrow> nat \<Rightarrow> json" where
  "enumeration_page enc recs m k =
     (let page = take m (drop k recs);
          delivered = k + length page;
          remaining = length recs - delivered
      in JObj [(''TotalRecords'', JInt (int (length recs))),
               (''RecordsRemaining'', JInt (int remaining)),
               (''EndOfResults'', JBool (remaining = 0)),
               (''ContinuationToken'', if remaining = 0 then JNull else JStr (enc delivered)),
               (''Objects'', JArr page)])"

text \<open>
  Modelled from the spec: the server answering the endpoint. A query is an object with a
  positive \<open>MaxResults\<close> (the spec's invariant of every query); the cursor is the one of
  \<open>ContinuationToken\<close>, and the start when there is none. Anything else is answered
  with 400.
\<close>

definition enumeration_server ::
  "(nat \<Rightarrow> string) \<Rightarrow> (string \<Rightarrow> nat) \<Rightarrow> json list \<Rightarrow> network" where
  "enumeration_server enc dec recs sent req =
     (case req_json req of
        Some (JObj kvs) \<Rightarrow>
          (case map_of kvs ''MaxResults'' of
             Some (JInt m) \<Rightarrow>
               if 0 < m then
                 Responded \<lparr>resp_status_code = 200, resp_reason = Some ''OK'',
                            resp_text = ''{...}'',
                            resp_json = Some (enumeration_page enc recs (nat m)
                              (case map_of kvs ''ContinuationToken'' of
                                 Some (JStr t) \<Rightarrow> dec t | _ \<Rightarrow> 0)),
                            resp_headers = no_headers\<rparr>
               else Responded (sample_response 400 ''Bad Request'' [] None)
           | _ \<Rightarrow> Responded (sample_response 400 ''Bad Request'' [] None))
      | _ \<Rightarrow> Responded (sample_response 400 ''Bad Request'' [] None))"

text \<open>
  A cursor notation for the concrete instances, and the fifteen credits of the spec's
  pagination scenario in ascending order of amount.
\<close>

definition sample_enc :: "nat \<Rightarrow> string" where
  "sample_enc k = CHR ''c'' # replicate k CHR ''+''"

definition sample_dec :: "string \<Rightarrow> nat" where
  "sample_dec s = length s - 1"

definition sample_entry :: "int \<Rightarrow> json" where
  "sample_entry a =
     JObj [(''GUID'', JStr (''e'' @ replicate (nat a) CHR ''i'')), (''AccountGUID'', JStr ''a1''),
           (''Type'', JStr ''Credit''), (''Amount'', JInt a)]"

definition sample_entries :: "json list" where
  "sample_entries =
     map sample_entry [5, 10, 15, 20, 25, 30, 35, 45, 50, 55, 60, 75, 80, 90, 100]"

section \<open>Properties of the transport\<close>

lemma all_dropWhile: "(\<forall>x\<in>set (dropWhile P s). P x) \<longleftrightarrow> (\<forall>x\<in>set s. P x)"
  by (induction s) auto

lemma py_strip_blank: "py_strip s = [] \<longleftrightarrow> list_all is_space s"
  by (simp add: py_strip_def all_dropWhile list_all_iff)

lemma blank_test: "(s = [] \<or> py_strip s = []) \<longleftrightarrow> list_all is_space s"
  by (cases s) (simp_all add: py_strip_blank)

lemma request_answered:
  "net sent (build_request c verb path body) = Responded r \<Longrightarrow>
   HttpClient_request c net sent verb path body =
     (handle_response r, sent @ [build_request c verb path body])"
  by (simp add: HttpClient_request_def Let_def)

lemma handle_2xx_blank:
  "200 \<le> resp_status_code r \<Longrightarrow> resp_status_code r < 300 \<Longrightarrow>
   list_all is_space (resp_text r) \<Longrightarrow>
   handle_response r = Inr \<lparr>data = JNull, status_code = resp_status_code r,
                            request_guid = resp_headers r ''x-request-guid''\<rparr>"
  by (simp add: handle_response_def blank_test Let_def)

lemma handle_2xx_body:
  "200 \<le> resp_status_code r \<Longrightarrow> resp_status_code r < 300 \<Longrightarrow>
   \<not> list_all is_space (resp_text r) \<Longrightarrow>
   handle_response r =
     (case resp_json r of
        Some d \<Rightarrow> Inr \<lparr>data = d, status_code = resp_status_code r,
                       request_guid = resp_headers r ''x-request-guid''\<rparr>
      | None \<Rightarrow> Inl (NetLedgerApiError (resp_status_code r)
                       (JStr ''Failed to parse response'') JNull))"
  by (simp add: handle_response_def blank_test Let_def)

lemma handle_error_unparsed:
  "\<not> (200 \<le> resp_status_code r \<and> resp_status_code r < 300) \<Longrightarrow> resp_json r = None \<Longrightarrow>
   handle_response r =
     Inl (NetLedgerApiError (resp_status_code r) (JStr (reason_or_unknown r)) JNull)"
  by (simp add: handle_response_def Let_def)

lemma handle_error_object:
  "\<not> (200 \<le> resp_status_code r \<and> resp_status_code r < 300) \<Longrightarrow>
   resp_json r = Some (JObj kvs) \<Longrightarrow>
   handle_response r =
     Inl (NetLedgerApiError (resp_status_code r)
            (dict_get kvs ''message'' (JStr (reason_or_unknown r)))
            (dict_get kvs ''description'' JNull))"
  by (simp add: handle_response_def Let_def dict_get_def)

text \<open>
  Claim C8. A HEAD request reads the status code and nothing else: when the server answers,
  the result is the truth value of \<open>200 \<le> status < 300\<close> and nothing is raised, whatever
  the status; a timeout raises the connection error with the fixed message
  \<open>Request timed out\<close>; any other request exception raises the connection error that
  carries it as cause. \<open>exists\<close> on an account is that HEAD request on the account's path.
\<close>

theorem head_status_only:
  "(\<forall>r. net sent (build_request c ''HEAD'' path JNull) = Responded r \<longrightarrow>
        HttpClient_head c net sent path =
          (Inr (200 \<le> resp_status_code r \<and> resp_status_code r < 300),
           sent @ [build_request c ''HEAD'' path JNull]))
   \<and> (net sent (build_request c ''HEAD'' path JNull) = Timeout \<longrightarrow>
        fst (HttpClient_head c net sent path) =
          Inl (NetLedgerConnectionError ''Request timed out'' None))
   \<and> (\<forall>e. net sent (build_request c ''HEAD'' path JNull) = RequestException e \<longrightarrow>
        fst (HttpClient_head c net sent path) =
          Inl (NetLedgerConnectionError ''Failed to connect to the server'' (Some e)))
   \<and> AccountMethods_exists c net sent acct =
       HttpClient_head c net sent (''/v1/accounts/'' @ acct)"
  by (simp add: HttpClient_head_def AccountMethods_exists_def Let_def)

theorem head_status_only_witness:
  "fst (HttpClient_head sample_client
          (constant_network (Responded (sample_response 404 ''Not Found'' [] None))) []
          ''/v1/accounts/a1'') = Inr False
   \<and> fst (HttpClient_head sample_client
          (constant_network (Responded (sample_response 204 ''No Content'' [] None))) []
          ''/v1/accounts/a1'') = Inr True
   \<and> fst (HttpClient_head sample_client (constant_network Timeout) [] ''/v1/accounts/a1'') =
       Inl (NetLedgerConnectionError ''Request timed out'' None)
   \<and> fst (HttpClient_head sample_client (constant_network (RequestException ''refused'')) []
            ''/v1/accounts/a1'') =
       Inl (NetLedgerConnectionError ''Failed to connect to the server'' (Some ''refused''))"
  using
    head_status_only [where net = "constant_network
        (Responded (sample_response 404 ''Not Found'' [] None))"
      and sent = "[]" and c = sample_client and path = "''/v1/accounts/a1''"]
    head_status_only [where net = "constant_network
        (Responded (sample_response 204 ''No Content'' [] None))"
      and sent = "[]" and c = sample_client and path = "''/v1/accounts/a1''"]
    head_status_only [where net = "constant_network Timeout"
      and sent = "[]" and c = sample_client and path = "''/v1/accounts/a1''"]
    head_status_only [where net = "constant_network (RequestException ''refused'')"
      and sent = "[]" and c = sample_client and path = "''/v1/accounts/a1''"]
  by (simp add: constant_network_def sample_response_def)

text \<open>
  Claim C9. \<open>health_check\<close> never raises: whatever the transport does with the HEAD request
  on the root path (answer, time out, fail to connect, raise any other \<^verbatim>\<open>Exception\<close>),
  the result is a boolean, and it is \<open>True\<close> exactly when the server answered with a status
  in \<open>[200, 300)\<close>. An interrupt of the process (\<^verbatim>\<open>KeyboardInterrupt\<close>,
  \<^verbatim>\<open>SystemExit\<close>) is no outcome of the transport and is not modelled.
\<close>

theorem health_check_total:
  "\<exists>b. ServiceMethods_health_check c net sent =
         (Inr b, sent @ [build_request c ''HEAD'' ''/'' JNull])
       \<and> (b \<longleftrightarrow> (\<exists>r. net sent (build_request c ''HEAD'' ''/'' JNull) = Responded r
                    \<and> 200 \<le> resp_status_code r \<and> resp_status_code r < 300))"
  by (cases "net sent (build_request c ''HEAD'' ''/'' JNull)")
     (auto simp add: ServiceMethods_health_check_def HttpClient_head_def Let_def)

text \<open>
  Claim C1, as the code has it. For every response the request method receives: with a
  status in \<open>[200, 300)\<close> and an empty or all-whitespace body the envelope has no body;
  with such a status and a body that does not parse the API error carries the status and
  the message \<open>Failed to parse response\<close>; with a status outside \<open>[200, 300)\<close> and a body
  that does not parse or parses to an object the API error carries the status, the
  object's \<open>message\<close> (when there is none: the reason phrase, and \<open>Unknown error\<close> when the
  reason phrase is missing or empty) and the object's \<open>description\<close>.
\<close>

theorem request_response_contract:
  assumes "net sent (build_request c verb path body) = Responded r"
  shows
  "(200 \<le> resp_status_code r \<and> resp_status_code r < 300 \<and> list_all is_space (resp_text r) \<longrightarrow>
      fst (HttpClient_request c net sent verb path body) =
        Inr \<lparr>data = JNull, status_code = resp_status_code r,
             request_guid = resp_headers r ''x-request-guid''\<rparr>)
   \<and> (200 \<le> resp_status_code r \<and> resp_status_code r < 300 \<and> \<not> list_all is_space (resp_text r)
        \<and> resp_json r = None \<longrightarrow>
      fst (HttpClient_request c net sent verb path body) =
        Inl (NetLedgerApiError (resp_status_code r) (JStr ''Failed to parse response'') JNull))
   \<and> (\<not> (200 \<le> resp_status_code r \<and> resp_status_code r < 300) \<and> resp_json r = None \<longrightarrow>
      fst (HttpClient_request c net sent verb path body) =
        Inl (NetLedgerApiError (resp_status_code r) (JStr (reason_or_unknown r)) JNull))
   \<and> (\<forall>kvs. \<not> (200 \<le> resp_status_code r \<and> resp_status_code r < 300)
        \<and> resp_json r = Some (JObj kvs) \<longrightarrow>
      fst (HttpClient_request c net sent verb path body) =
        Inl (NetLedgerApiError (resp_status_code r)
               (dict_get kvs ''message'' (JStr (reason_or_unknown r)))
               (dict_get kvs ''description'' JNull)))
   \<and> (\<forall>s. resp_reason r = Some s \<and> s \<noteq> [] \<longrightarrow> reason_or_unknown r = s)
   \<and> (resp_reason r = None \<or> resp_reason r = Some [] \<longrightarrow>
        reason_or_unknown r = ''Unknown error'')"
proof -
  have eq: "fst (HttpClient_request c net sent verb path body) = handle_response r"
    using assms by (simp add: request_answered)
  show ?thesis
    unfolding eq
    by (auto simp: handle_2xx_blank handle_2xx_body handle_error_unparsed handle_error_object
          reason_or_unknown_def)
qed

theorem request_response_contract_witness:
  "fst (HttpClient_request sample_client
          (constant_network (Responded (sample_response 200 ''OK'' ''  '' None))) []
          ''GET'' ''/v1/accounts/a1'' JNull) =
     Inr \<lparr>data = JNull, status_code = 200, request_guid = None\<rparr>
   \<and> fst (HttpClient_request sample_client
          (constant_network (Responded (sample_response 200 ''OK'' ''<html>'' None))) []
          ''GET'' ''/v1/accounts/a1'' JNull) =
     Inl (NetLedgerApiError 200 (JStr ''Failed to parse response'') JNull)
   \<and> fst (HttpClient_request sample_client
          (constant_network (Responded (sample_response 404 ''Not Found'' [] None))) []
          ''GET'' ''/v1/accounts/a1'' JNull) =
     Inl (NetLedgerApiError 404 (JStr ''Not Found'') JNull)
   \<and> fst (HttpClient_request sample_client
          (constant_network (Responded (sample_response 409 ''Conflict'' ''{...}''
             (Some (JObj [(''message'', JStr ''Entry is committed''),
                          (''description'', JStr ''cannot cancel'')]))))) []
          ''GET'' ''/v1/accounts/a1'' JNull) =
     Inl (NetLedgerApiError 409 (JStr ''Entry is committed'') (JStr ''cannot cancel''))"
  using
    request_response_contract [where net = "constant_network
        (Responded (sample_response 200 ''OK'' ''  '' None))"
      and r = "sample_response 200 ''OK'' ''  '' None"
      and sent = "[]" and c = sample_client and verb = "''GET''"
      and path = "''/v1/accounts/a1''" and body = JNull]
    request_response_contract [where net = "constant_network
        (Responded (sample_response 200 ''OK'' ''<html>'' None))"
      and r = "sample_response 200 ''OK'' ''<html>'' None"
      and sent = "[]" and c = sample_client and verb = "''GET''"
      and path = "''/v1/accounts/a1''" and body = JNull]
    request_response_contract [where net = "constant_network
        (Responded (sample_response 404 ''Not Found'' [] None))"
      and r = "sample_response 404 ''Not Found'' [] None"
      and sent = "[]" and c = sample_client and verb = "''GET''"
      and path = "''/v1/accounts/a1''" and body = JNull]
    request_response_contract [where net = "constant_network
        (Responded (sample_response 409 ''Conflict'' ''{...}''
             (Some (JObj [(''message'', JStr ''Entry is committed''),
                          (''description'', JStr ''cannot cancel'')]))))"
      and r = "sample_response 409 ''Conflict'' ''{...}''
             (Some (JObj [(''message'', JStr ''Entry is committed''),
                          (''description'', JStr ''cannot cancel'')]))"
      and sent = "[]" and c = sample_client and verb = "''GET''"
      and path = "''/v1/accounts/a1''" and body = JNull]
  by (simp add: constant_network_def sample_response_def no_headers_def is_space_def
        dict_get_def)

text \<open>
  The claim as written lets the message fall back to the reason phrase. A 503 without
  reason phrase and without body is reported with the message \<open>Unknown error\<close>.
\<close>

theorem reason_phrase_fallback_counterexample:
  "fst (HttpClient_request sample_client
          (constant_network (Responded (sample_response 503 [] [] None))) []
          ''GET'' ''/v1/accounts/a1'' JNull) =
     Inl (NetLedgerApiError 503 (JStr ''Unknown error'') JNull)
   \<and> resp_reason (sample_response 503 [] [] None) = Some []"
  by (simp add: HttpClient_request_def constant_network_def sample_response_def
        handle_response_def reason_or_unknown_def Let_def)

text \<open>
  An error body that parses to something other than an object: \<^verbatim>\<open>error_data.get\<close>
  raises \<^verbatim>\<open>AttributeError\<close>, which no handler of \<^verbatim>\<open>_request\<close> catches.
\<close>

lemma non_object_error_body_escapes:
  "fst (HttpClient_request sample_client
          (constant_network (Responded
             (sample_response 500 ''Internal Server Error'' ''[]'' (Some (JArr []))))) []
          ''GET'' ''/v1/accounts/a1'' JNull) =
     Inl (AttributeError ''object has no attribute get'')"
  by (simp add: HttpClient_request_def constant_network_def sample_response_def
        handle_response_def reason_or_unknown_def Let_def)

section \<open>Properties of the operation groups\<close>

lemma verify_after_get:
  "net sent (build_request c ''GET'' (''/v1/accounts/'' @ acct @ ''/verify'') JNull) = Responded r \<Longrightarrow>
   fst (BalanceMethods_verify c net sent acct) =
     (case handle_response r of
        Inr response \<Rightarrow> Inr (status_code response = 200)
      | Inl (NetLedgerApiError st m d) \<Rightarrow>
          if st = 409 then Inr False else Inl (NetLedgerApiError st m d)
      | Inl e \<Rightarrow> Inl e)"
  by (simp add: BalanceMethods_verify_def HttpClient_get_def request_answered
        split: sum.splits error.splits)

text \<open>
  Claim C4, as the code has it. \<open>verify\<close> returns \<open>True\<close> when the server answers 200 with
  a body that is blank or parses, and raises the API error \<open>Failed to parse response\<close>
  (status 200) when the body of the 200 answer does not parse; it returns \<open>False\<close> without
  raising on 409; on every other status outside \<open>[200, 300)\<close> it raises an API error with
  that status. The last two are stated for error bodies that do not parse or parse to an
  object.
\<close>

theorem verify_outcomes:
  assumes "net sent (build_request c ''GET'' (''/v1/accounts/'' @ acct @ ''/verify'') JNull)
             = Responded r"
  shows
  "(resp_status_code r = 200 \<and> (list_all is_space (resp_text r) \<or> resp_json r \<noteq> None) \<longrightarrow>
      fst (BalanceMethods_verify c net sent acct) = Inr True)
   \<and> (resp_status_code r = 200 \<and> \<not> list_all is_space (resp_text r) \<and> resp_json r = None \<longrightarrow>
      fst (BalanceMethods_verify c net sent acct) =
        Inl (NetLedgerApiError 200 (JStr ''Failed to parse response'') JNull))
   \<and> (resp_status_code r = 409 \<and> (resp_json r = None \<or> (\<exists>kvs. resp_json r = Some (JObj kvs))) \<longrightarrow>
      fst (BalanceMethods_verify c net sent acct) = Inr False)
   \<and> (\<not> (200 \<le> resp_status_code r \<and> resp_status_code r < 300) \<and> resp_status_code r \<noteq> 409
        \<and> (resp_json r = None \<or> (\<exists>kvs. resp_json r = Some (JObj kvs))) \<longrightarrow>
      (\<exists>m d. fst (BalanceMethods_verify c net sent acct) =
                Inl (NetLedgerApiError (resp_status_code r) m d)))"
proof -
  note v = verify_after_get [of net sent c acct r, OF assms]
  have a: "resp_status_code r = 200 \<Longrightarrow> list_all is_space (resp_text r) \<or> resp_json r \<noteq> None \<Longrightarrow>
           fst (BalanceMethods_verify c net sent acct) = Inr True"
    unfolding v by (cases "list_all is_space (resp_text r)")
      (auto simp: handle_2xx_blank handle_2xx_body)
  have b: "resp_status_code r = 200 \<Longrightarrow> \<not> list_all is_space (resp_text r) \<Longrightarrow> resp_json r = None \<Longrightarrow>
           fst (BalanceMethods_verify c net sent acct) =
             Inl (NetLedgerApiError 200 (JStr ''Failed to parse response'') JNull)"
    unfolding v by (simp add: handle_2xx_body)
  have c: "resp_status_code r = 409 \<Longrightarrow> resp_json r = None \<or> (\<exists>kvs. resp_json r = Some (JObj kvs)) \<Longrightarrow>
           fst (BalanceMethods_verify c net sent acct) = Inr False"
    unfolding v by (auto simp: handle_error_unparsed handle_error_object)
  have d: "\<not> (200 \<le> resp_status_code r \<and> resp_status_code r < 300) \<Longrightarrow> resp_status_code r \<noteq> 409 \<Longrightarrow>
           resp_json r = None \<or> (\<exists>kvs. resp_json r = Some (JObj kvs)) \<Longrightarrow>
           \<exists>m d. fst (BalanceMethods_verify c net sent acct) =
                Inl (NetLedgerApiError (resp_status_code r) m d)"
    unfolding v by (auto simp: handle_error_unparsed handle_error_object)
  from a b c d show ?thesis by blast
qed

theorem verify_outcomes_witness:
  "fst (BalanceMethods_verify sample_client
          (constant_network (Responded (sample_response 200 ''OK'' [] None))) [] ''a1'') = Inr True
   \<and> fst (BalanceMethods_verify sample_client
          (constant_network (Responded (sample_response 409 ''Conflict'' [] None))) [] ''a1'')
       = Inr False
   \<and> (\<exists>m d. fst (BalanceMethods_verify sample_client
          (constant_network (Responded (sample_response 404 ''Not Found'' [] None))) [] ''a1'')
       = Inl (NetLedgerApiError 404 m d))"
  using
    verify_outcomes [where net = "constant_network (Responded (sample_response 200 ''OK'' [] None))"
      and r = "sample_response 200 ''OK'' [] None" and sent = "[]" and c = sample_client
      and acct = "''a1''"]
    verify_outcomes [where net = "constant_network
        (Responded (sample_response 409 ''Conflict'' [] None))"
      and r = "sample_response 409 ''Conflict'' [] None" and sent = "[]" and c = sample_client
      and acct = "''a1''"]
    verify_outcomes [where net = "constant_network
        (Responded (sample_response 404 ''Not Found'' [] None))"
      and r = "sample_response 404 ''Not Found'' [] None" and sent = "[]" and c = sample_client
      and acct = "''a1''"]
  by (simp add: constant_network_def sample_response_def)

text \<open>
  The claim as written has \<open>verify\<close> return \<open>True\<close> on every 200. A 200 whose body is the
  text \<open>OK\<close> is no JSON: the transport raises an API error with status 200, which
  \<open>verify\<close> re-raises because the status is not 409.
\<close>

theorem verify_unparsed_200_counterexample:
  "fst (BalanceMethods_verify sample_client
          (constant_network (Responded (sample_response 200 ''OK'' ''OK'' None))) [] ''a1'') =
     Inl (NetLedgerApiError 200 (JStr ''Failed to parse response'') JNull)"
  by (simp add: BalanceMethods_verify_def HttpClient_get_def HttpClient_request_def
        constant_network_def sample_response_def handle_response_def py_strip_def is_space_def
        Let_def)

text \<open>
  Claim C5. With an amount \<open>\<le> 0\<close>, \<open>add_credit\<close> and \<open>add_debit\<close> raise the validation
  error and leave the list of sent requests as it was, whatever the network would have
  done; so do \<open>add_credits\<close> and \<open>add_debits\<close> on an empty list and on a list with an
  amount \<open>\<le> 0\<close> in it.
\<close>

theorem validation_precedes_network:
  "(float_le_zero amt \<longrightarrow>
      EntryMethods_add_credit c net sent acct amt descr =
        (Inl (NetLedgerValidationError ''Amount must be greater than zero'' (Some ''amount'')), sent)
      \<and> EntryMethods_add_debit c net sent acct amt descr =
        (Inl (NetLedgerValidationError ''Amount must be greater than zero'' (Some ''amount'')), sent))
   \<and> (entries = [] \<or> list_ex (\<lambda>e. float_le_zero (ei_amount e)) entries \<longrightarrow>
        (\<exists>m. EntryMethods_add_credits c net sent acct entries =
               (Inl (NetLedgerValidationError m (Some ''entries'')), sent))
        \<and> (\<exists>m. EntryMethods_add_debits c net sent acct entries =
               (Inl (NetLedgerValidationError m (Some ''entries'')), sent)))
   \<and> (\<forall>q. q \<le> 0 \<longrightarrow> float_le_zero (Finite q))"
  by (auto simp: EntryMethods_add_credit_def EntryMethods_add_debit_def
        EntryMethods_add_credits_def EntryMethods_add_debits_def)

theorem validation_precedes_network_witness:
  "EntryMethods_add_credit sample_client (constant_network Timeout) [] ''a1'' (Finite 0) None =
     (Inl (NetLedgerValidationError ''Amount must be greater than zero'' (Some ''amount'')), [])
   \<and> EntryMethods_add_debit sample_client (constant_network Timeout) [] ''a1'' (Finite 0) None =
     (Inl (NetLedgerValidationError ''Amount must be greater than zero'' (Some ''amount'')), [])
   \<and> (\<exists>m. EntryMethods_add_credits sample_client (constant_network Timeout) [] ''a1''
             [\<lparr>ei_amount = Finite 5, ei_description = None\<rparr>,
              \<lparr>ei_amount = Finite (-1), ei_description = None\<rparr>] =
           (Inl (NetLedgerValidationError m (Some ''entries'')), []))
   \<and> (\<exists>m. EntryMethods_add_debits sample_client (constant_network Timeout) [] ''a1'' [] =
           (Inl (NetLedgerValidationError m (Some ''entries'')), []))"
  using
    validation_precedes_network [where amt = "Finite 0" and c = sample_client
      and net = "constant_network Timeout" and sent = "[]" and acct = "''a1''" and descr = None
      and entries = "[\<lparr>ei_amount = Finite 5, ei_description = None\<rparr>,
              \<lparr>ei_amount = Finite (-1), ei_description = None\<rparr>]"]
    validation_precedes_network [where amt = "Finite 0" and c = sample_client
      and net = "constant_network Timeout" and sent = "[]" and acct = "''a1''" and descr = None
      and entries = "[]"]
  by simp

text \<open>
  Claim C10. \<open>commit\<close> with the empty list of entry guids is \<open>commit\<close> with \<open>None\<close>: the
  same result and the same single request, which carries no body.
\<close>

theorem commit_empty_list_is_commit_all:
  "BalanceMethods_commit pf c net sent acct (Some []) = BalanceMethods_commit pf c net sent acct None
   \<and> snd (BalanceMethods_commit pf c net sent acct (Some [])) =
       sent @ [build_request c ''POST'' (''/v1/accounts/'' @ acct @ ''/commit'') JNull]
   \<and> req_json (build_request c ''POST'' (''/v1/accounts/'' @ acct @ ''/commit'') JNull) = None"
  by (simp add: BalanceMethods_commit_def HttpClient_post_def HttpClient_request_def Let_def
        build_request_def split: prod.splits sum.splits)

section \<open>Properties of the domain model\<close>

lemma decode_entry_type_int:
  "map_of kvs ''Type'' = Some (JInt (EntryType_value t)) \<Longrightarrow> decode_entry_type (JObj kvs) = Inr t"
  by (cases t) (simp_all add: decode_entry_type_def EntryType_of_int_def)

lemma decode_entry_type_str:
  "map_of kvs ''Type'' = Some (JStr s) \<Longrightarrow>
   decode_entry_type (JObj kvs) =
     Inr (if s = ''Credit'' then CREDIT else if s = ''Debit'' then DEBIT
          else if s = ''Balance'' then BALANCE else CREDIT)"
  by (simp add: decode_entry_type_def EntryType_of_int_def type_map_def)

lemma Entry_from_dict_type:
  "pyfloat_of (dict_get kvs ''Amount'' (JInt 0)) = Inr a \<Longrightarrow> decode_entry_type (JObj kvs) = Inr t \<Longrightarrow>
   \<exists>e. Entry_from_dict pyfloat_of (JObj kvs) = Inr e \<and> entry_type e = t \<and> amount e = a"
  by (simp add: Entry_from_dict_def)

lemma decode_entry_type_out_of_range:
  "map_of kvs ''Type'' = Some (JInt i) \<Longrightarrow> i \<noteq> 0 \<Longrightarrow> i \<noteq> 1 \<Longrightarrow> i \<noteq> 2 \<Longrightarrow>
   decode_entry_type (JObj kvs) = Inl (ValueError ''not a valid EntryType'')"
  by (simp add: decode_entry_type_def EntryType_of_int_def)

text \<open>
  Claim C2. Decoding an entry whose amount converts reads the discriminator in both wire
  forms: the integer code of a variant (Credit 0, Debit 1, Balance 2) gives that variant,
  each of the names \<open>Credit\<close>, \<open>Debit\<close>, \<open>Balance\<close> gives its variant, and every other
  string gives Credit.
\<close>

theorem entry_type_decoding:
  assumes "pyfloat_of (dict_get kvs ''Amount'' (JInt 0)) = Inr a"
  shows
  "(\<forall>t. map_of kvs ''Type'' = Some (JInt (EntryType_value t)) \<longrightarrow>
        (\<exists>e. Entry_from_dict pyfloat_of (JObj kvs) = Inr e \<and> entry_type e = t))
   \<and> (map_of kvs ''Type'' = Some (JStr ''Credit'') \<longrightarrow>
        (\<exists>e. Entry_from_dict pyfloat_of (JObj kvs) = Inr e \<and> entry_type e = CREDIT))
   \<and> (map_of kvs ''Type'' = Some (JStr ''Debit'') \<longrightarrow>
        (\<exists>e. Entry_from_dict pyfloat_of (JObj kvs) = Inr e \<and> entry_type e = DEBIT))
   \<and> (map_of kvs ''Type'' = Some (JStr ''Balance'') \<longrightarrow>
        (\<exists>e. Entry_from_dict pyfloat_of (JObj kvs) = Inr e \<and> entry_type e = BALANCE))
   \<and> (\<forall>s. map_of kvs ''Type'' = Some (JStr s)
          \<and> s \<noteq> ''Credit'' \<and> s \<noteq> ''Debit'' \<and> s \<noteq> ''Balance'' \<longrightarrow>
        (\<exists>e. Entry_from_dict pyfloat_of (JObj kvs) = Inr e \<and> entry_type e = CREDIT))
   \<and> EntryType_value CREDIT = 0 \<and> EntryType_value DEBIT = 1 \<and> EntryType_value BALANCE = 2"
proof -
  have i: "\<And>t. map_of kvs ''Type'' = Some (JInt (EntryType_value t)) \<Longrightarrow>
             \<exists>e. Entry_from_dict pyfloat_of (JObj kvs) = Inr e \<and> entry_type e = t"
    using Entry_from_dict_type [of pyfloat_of kvs a, OF assms] decode_entry_type_int by blast
  have s: "\<And>s. map_of kvs ''Type'' = Some (JStr s) \<Longrightarrow>
             \<exists>e. Entry_from_dict pyfloat_of (JObj kvs) = Inr e \<and> entry_type e =
               (if s = ''Credit'' then CREDIT else if s = ''Debit'' then DEBIT
                else if s = ''Balance'' then BALANCE else CREDIT)"
    using Entry_from_dict_type [of pyfloat_of kvs a, OF assms] decode_entry_type_str by blast
  have c: "map_of kvs ''Type'' = Some (JStr ''Credit'') \<Longrightarrow>
        (\<exists>e. Entry_from_dict pyfloat_of (JObj kvs) = Inr e \<and> entry_type e = CREDIT)"
    using s [of "''Credit''"] by simp
  have d: "map_of kvs ''Type'' = Some (JStr ''Debit'') \<Longrightarrow>
        (\<exists>e. Entry_from_dict pyfloat_of (JObj kvs) = Inr e \<and> entry_type e = DEBIT)"
    using s [of "''Debit''"] by simp
  have b: "map_of kvs ''Type'' = Some (JStr ''Balance'') \<Longrightarrow>
        (\<exists>e. Entry_from_dict pyfloat_of (JObj kvs) = Inr e \<and> entry_type e = BALANCE)"
    using s [of "''Balance''"] by simp
  have u: "\<And>s. map_of kvs ''Type'' = Some (JStr s) \<Longrightarrow>
          s \<noteq> ''Credit'' \<Longrightarrow> s \<noteq> ''Debit'' \<Longrightarrow> s \<noteq> ''Balance'' \<Longrightarrow>
        (\<exists>e. Entry_from_dict pyfloat_of (JObj kvs) = Inr e \<and> entry_type e = CREDIT)"
    using s by fastforce
  from i c d b u show ?thesis by simp
qed

theorem entry_type_decoding_witness:
  "(\<exists>e. Entry_from_dict float_of_number
           (JObj [(''GUID'', JStr ''e1''), (''Type'', JInt 2), (''Amount'', JInt 5)]) = Inr e
        \<and> entry_type e = BALANCE)
   \<and> (\<exists>e. Entry_from_dict float_of_number
           (JObj [(''GUID'', JStr ''e1''), (''Type'', JStr ''Debit''), (''Amount'', JInt 5)]) = Inr e
        \<and> entry_type e = DEBIT)
   \<and> (\<exists>e. Entry_from_dict float_of_number
           (JObj [(''GUID'', JStr ''e1''), (''Type'', JStr ''debit''), (''Amount'', JInt 5)]) = Inr e
        \<and> entry_type e = CREDIT)"
  using
    entry_type_decoding [where pyfloat_of = float_of_number and a = "Finite 5"
      and kvs = "[(''GUID'', JStr ''e1''), (''Type'', JInt 2), (''Amount'', JInt 5)]"]
    entry_type_decoding [where pyfloat_of = float_of_number and a = "Finite 5"
      and kvs = "[(''GUID'', JStr ''e1''), (''Type'', JStr ''Debit''), (''Amount'', JInt 5)]"]
    entry_type_decoding [where pyfloat_of = float_of_number and a = "Finite 5"
      and kvs = "[(''GUID'', JStr ''e1''), (''Type'', JStr ''debit''), (''Amount'', JInt 5)]"]
  by (simp add: dict_get_def)

lemma map_of_str_entry:
  "map_of (str_entry k v) k' =
     (if k' = k then (case v of None \<Rightarrow> None | Some s \<Rightarrow> if s = [] then None else Some (JStr s))
      else None)"
  by (simp add: str_entry_def split: option.splits)

lemma map_of_float_entry:
  "map_of (float_entry k v) k' = (if k' = k then map_option JFloat v else None)"
  by (simp add: float_entry_def split: option.splits)

lemma to_dict_lookup:
  "map_of (EntryEnumerationQuery_to_dict q) k =
     (if k = ''MaxResults'' then Some (JInt (max_results q))
      else if k = ''Ordering'' then Some (JInt (EnumerationOrder_value (ordering q)))
      else if k = ''ContinuationToken'' then
        (case q_continuation_token q of
           None \<Rightarrow> None | Some s \<Rightarrow> if s = [] then None else Some (JStr s))
      else if k = ''CreatedAfterUtc'' then
        (case created_after_utc q of
           None \<Rightarrow> None | Some s \<Rightarrow> if s = [] then None else Some (JStr s))
      else if k = ''CreatedBeforeUtc'' then
        (case created_before_utc q of
           None \<Rightarrow> None | Some s \<Rightarrow> if s = [] then None else Some (JStr s))
      else if k = ''AmountMinimum'' then map_option JFloat (amount_min q)
      else if k = ''AmountMaximum'' then map_option JFloat (amount_max q)
      else None)"
  by (simp add: EntryEnumerationQuery_to_dict_def map_add_def
        map_of_str_entry map_of_float_entry split: option.splits)


lemma to_dict_distinct: "distinct (map fst (EntryEnumerationQuery_to_dict q))"
  by (simp add: EntryEnumerationQuery_to_dict_def str_entry_def float_entry_def
        split: option.splits)

text \<open>
  Claim C7, as the code has it. The payload of a query always holds \<open>MaxResults\<close> and
  \<open>Ordering\<close>; it holds \<open>ContinuationToken\<close>, \<open>CreatedAfterUtc\<close> and \<open>CreatedBeforeUtc\<close>
  exactly when the field is a non-empty string, and \<open>AmountMinimum\<close> and \<open>AmountMaximum\<close>
  exactly when the field is not \<open>None\<close>; each value that is present is the field's value;
  no key occurs twice; and a query with a non-empty string or an amount in a field
  encodes differently, at that key, from every query whose field holds something else.
\<close>

theorem query_encoding:
  "map_of (EntryEnumerationQuery_to_dict q) ''MaxResults'' = Some (JInt (max_results q))
   \<and> map_of (EntryEnumerationQuery_to_dict q) ''Ordering'' =
       Some (JInt (EnumerationOrder_value (ordering q)))
   \<and> map_of (EntryEnumerationQuery_to_dict q) ''ContinuationToken'' =
       (case q_continuation_token q of
          None \<Rightarrow> None | Some s \<Rightarrow> if s = [] then None else Some (JStr s))
   \<and> map_of (EntryEnumerationQuery_to_dict q) ''CreatedAfterUtc'' =
       (case created_after_utc q of
          None \<Rightarrow> None | Some s \<Rightarrow> if s = [] then None else Some (JStr s))
   \<and> map_of (EntryEnumerationQuery_to_dict q) ''CreatedBeforeUtc'' =
       (case created_before_utc q of
          None \<Rightarrow> None | Some s \<Rightarrow> if s = [] then None else Some (JStr s))
   \<and> map_of (EntryEnumerationQuery_to_dict q) ''AmountMinimum'' = map_option JFloat (amount_min q)
   \<and> map_of (EntryEnumerationQuery_to_dict q) ''AmountMaximum'' = map_option JFloat (amount_max q)
   \<and> distinct (map fst (EntryEnumerationQuery_to_dict q))
   \<and> (\<forall>s. q_continuation_token q = Some s \<and> s \<noteq> [] \<and> q_continuation_token q' \<noteq> Some s \<longrightarrow>
         map_of (EntryEnumerationQuery_to_dict q) ''ContinuationToken''
           \<noteq> map_of (EntryEnumerationQuery_to_dict q') ''ContinuationToken'')
   \<and> (\<forall>s. created_after_utc q = Some s \<and> s \<noteq> [] \<and> created_after_utc q' \<noteq> Some s \<longrightarrow>
         map_of (EntryEnumerationQuery_to_dict q) ''CreatedAfterUtc''
           \<noteq> map_of (EntryEnumerationQuery_to_dict q') ''CreatedAfterUtc'')
   \<and> (\<forall>s. created_before_utc q = Some s \<and> s \<noteq> [] \<and> created_before_utc q' \<noteq> Some s \<longrightarrow>
         map_of (EntryEnumerationQuery_to_dict q) ''CreatedBeforeUtc''
           \<noteq> map_of (EntryEnumerationQuery_to_dict q') ''CreatedBeforeUtc'')
   \<and> (\<forall>a. amount_min q = Some a \<and> amount_min q' \<noteq> Some a \<longrightarrow>
         map_of (EntryEnumerationQuery_to_dict q) ''AmountMinimum''
           \<noteq> map_of (EntryEnumerationQuery_to_dict q') ''AmountMinimum'')
   \<and> (\<forall>a. amount_max q = Some a \<and> amount_max q' \<noteq> Some a \<longrightarrow>
         map_of (EntryEnumerationQuery_to_dict q) ''AmountMaximum''
           \<noteq> map_of (EntryEnumerationQuery_to_dict q') ''AmountMaximum'')"
  by (auto simp: to_dict_lookup to_dict_distinct map_option_case split: option.splits)

theorem query_encoding_witness:
  "map_of (EntryEnumerationQuery_to_dict
       (EntryEnumerationQuery_default\<lparr>q_continuation_token := Some ''tok-1'',
          amount_min := Some (Finite 0)\<rparr>)) ''ContinuationToken''
     \<noteq> map_of (EntryEnumerationQuery_to_dict
       (EntryEnumerationQuery_default\<lparr>q_continuation_token := Some ''tok-2'',
          amount_min := Some (Finite 0)\<rparr>)) ''ContinuationToken''
   \<and> map_of (EntryEnumerationQuery_to_dict
       (EntryEnumerationQuery_default\<lparr>q_continuation_token := Some ''tok-1'',
          amount_min := Some (Finite 0)\<rparr>)) ''AmountMinimum''
     \<noteq> map_of (EntryEnumerationQuery_to_dict EntryEnumerationQuery_default) ''AmountMinimum''
   \<and> map_of (EntryEnumerationQuery_to_dict
       (EntryEnumerationQuery_default\<lparr>q_continuation_token := Some ''tok-1'',
          amount_min := Some (Finite 0)\<rparr>)) ''AmountMinimum'' = Some (JFloat (Finite 0))"
  using
    query_encoding [where q = "EntryEnumerationQuery_default\<lparr>q_continuation_token := Some ''tok-1'',
          amount_min := Some (Finite 0)\<rparr>"
      and q' = "EntryEnumerationQuery_default\<lparr>q_continuation_token := Some ''tok-2'',
          amount_min := Some (Finite 0)\<rparr>"]
    query_encoding [where q = "EntryEnumerationQuery_default\<lparr>q_continuation_token := Some ''tok-1'',
          amount_min := Some (Finite 0)\<rparr>"
      and q' = EntryEnumerationQuery_default]
  by (simp add: EntryEnumerationQuery_default_def to_dict_lookup)

text \<open>
  The claim as written has every populated field in the payload. A continuation token
  that is the empty string is populated, is left out of the payload, and the query
  encodes exactly as the query without token does.
\<close>

theorem empty_token_dropped_counterexample:
  "q_continuation_token (EntryEnumerationQuery_default\<lparr>q_continuation_token := Some []\<rparr>) = Some []
   \<and> map_of (EntryEnumerationQuery_to_dict
         (EntryEnumerationQuery_default\<lparr>q_continuation_token := Some []\<rparr>))
       ''ContinuationToken'' = None
   \<and> EntryEnumerationQuery_to_dict (EntryEnumerationQuery_default\<lparr>q_continuation_token := Some []\<rparr>)
       = EntryEnumerationQuery_to_dict EntryEnumerationQuery_default"
  by (simp add: EntryEnumerationQuery_to_dict_def EntryEnumerationQuery_default_def
        str_entry_def float_entry_def)

lemma put_answered:
  "\<forall>q. net sent q = Responded r \<Longrightarrow>
   HttpClient_put c net sent path body =
     (handle_response r, sent @ [build_request c ''PUT'' path body])"
  by (simp add: HttpClient_put_def request_answered)

lemma first_guid_no_data:
  "\<not> truthy (data response) \<Longrightarrow>
   first_entry_guid (Inr response) = Inl (ValueError ''No data returned from server'')"
  by (simp add: first_entry_guid_def)

lemma first_guid_object:
  "data response = JObj kvs \<Longrightarrow> kvs \<noteq> [] \<Longrightarrow>
   first_entry_guid (Inr response) =
     (case map_of kvs ''EntryGuids'' of
        None \<Rightarrow> Inl (ValueError ''No entry GUID returned from server'')
      | Some g \<Rightarrow> if \<not> truthy g then Inl (ValueError ''No entry GUID returned from server'')
                  else py_first g)"
  by (simp add: first_entry_guid_def split: option.splits)

lemma all_guids_no_data:
  "\<not> truthy (data response) \<Longrightarrow> all_entry_guids (Inr response) = Inr (JArr [])"
  by (simp add: all_entry_guids_def)

lemma all_guids_object:
  "data response = JObj kvs \<Longrightarrow> kvs \<noteq> [] \<Longrightarrow>
   all_entry_guids (Inr response) =
     Inr (case map_of kvs ''EntryGuids'' of None \<Rightarrow> JArr [] | Some g \<Rightarrow> g)"
  by (simp add: all_entry_guids_def)

text \<open>
  Claim C6, as the code has it. The server answers a valid \<open>add_credit\<close>, \<open>add_debit\<close>,
  \<open>add_credits\<close> or \<open>add_debits\<close> with a status in \<open>[200, 300)\<close>. When the body is blank,
  or parses to an object without \<open>EntryGuids\<close>, the single operations raise
  \<^verbatim>\<open>ValueError\<close> and the batch operations return the empty list; when \<open>EntryGuids\<close>
  is a list, the single operations return its first element (\<^verbatim>\<open>ValueError\<close> when it is
  empty) and the batch operations return the list as it is; when the body is not blank
  and does not parse, all four raise the API error \<open>Failed to parse response\<close>.
\<close>

theorem entry_guid_results:
  assumes net: "\<forall>q. net sent q = Responded r"
    and ok: "200 \<le> resp_status_code r" "resp_status_code r < 300"
    and amt: "\<not> float_le_zero amt"
    and ents: "entries \<noteq> []" "\<not> list_ex (\<lambda>e. float_le_zero (ei_amount e)) entries"
  shows
  "(list_all is_space (resp_text r) \<longrightarrow>
      fst (EntryMethods_add_credit c net sent acct amt descr) =
        Inl (ValueError ''No data returned from server'')
      \<and> fst (EntryMethods_add_debit c net sent acct amt descr) =
        Inl (ValueError ''No data returned from server'')
      \<and> fst (EntryMethods_add_credits c net sent acct entries) = Inr (JArr [])
      \<and> fst (EntryMethods_add_debits c net sent acct entries) = Inr (JArr []))
   \<and> (\<not> list_all is_space (resp_text r) \<and> resp_json r = None \<longrightarrow>
      fst (EntryMethods_add_credit c net sent acct amt descr) =
        Inl (NetLedgerApiError (resp_status_code r) (JStr ''Failed to parse response'') JNull)
      \<and> fst (EntryMethods_add_debit c net sent acct amt descr) =
        Inl (NetLedgerApiError (resp_status_code r) (JStr ''Failed to parse response'') JNull)
      \<and> fst (EntryMethods_add_credits c net sent acct entries) =
        Inl (NetLedgerApiError (resp_status_code r) (JStr ''Failed to parse response'') JNull)
      \<and> fst (EntryMethods_add_debits c net sent acct entries) =
        Inl (NetLedgerApiError (resp_status_code r) (JStr ''Failed to parse response'') JNull))
   \<and> (\<forall>kvs. \<not> list_all is_space (resp_text r) \<and> resp_json r = Some (JObj kvs)
          \<and> map_of kvs ''EntryGuids'' = None \<longrightarrow>
      fst (EntryMethods_add_credit c net sent acct amt descr) =
        Inl (ValueError (if kvs = [] then ''No data returned from server''
                         else ''No entry GUID returned from server''))
      \<and> fst (EntryMethods_add_debit c net sent acct amt descr) =
        Inl (ValueError (if kvs = [] then ''No data returned from server''
                         else ''No entry GUID returned from server''))
      \<and> fst (EntryMethods_add_credits c net sent acct entries) = Inr (JArr [])
      \<and> fst (EntryMethods_add_debits c net sent acct entries) = Inr (JArr []))
   \<and> (\<forall>kvs gs. \<not> list_all is_space (resp_text r) \<and> resp_json r = Some (JObj kvs)
          \<and> map_of kvs ''EntryGuids'' = Some (JArr gs) \<longrightarrow>
      fst (EntryMethods_add_credit c net sent acct amt descr) =
        (case gs of [] \<Rightarrow> Inl (ValueError ''No entry GUID returned from server'')
                  | g # _ \<Rightarrow> Inr g)
      \<and> fst (EntryMethods_add_debit c net sent acct amt descr) =
        (case gs of [] \<Rightarrow> Inl (ValueError ''No entry GUID returned from server'')
                  | g # _ \<Rightarrow> Inr g)
      \<and> fst (EntryMethods_add_credits c net sent acct entries) = Inr (JArr gs)
      \<and> fst (EntryMethods_add_debits c net sent acct entries) = Inr (JArr gs))"
proof -
  note pa = put_answered [where net = net and sent = sent and r = r, OF net]
  have c1: "fst (EntryMethods_add_credit c net sent acct amt descr) =
              first_entry_guid (handle_response r)"
    using amt by (simp add: EntryMethods_add_credit_def pa)
  have d1: "fst (EntryMethods_add_debit c net sent acct amt descr) =
              first_entry_guid (handle_response r)"
    using amt by (simp add: EntryMethods_add_debit_def pa)
  have cs: "fst (EntryMethods_add_credits c net sent acct entries) =
              all_entry_guids (handle_response r)"
    using ents by (simp add: EntryMethods_add_credits_def pa)
  have ds: "fst (EntryMethods_add_debits c net sent acct entries) =
              all_entry_guids (handle_response r)"
    using ents by (simp add: EntryMethods_add_debits_def pa)
  have blank: "list_all is_space (resp_text r) \<Longrightarrow>
      first_entry_guid (handle_response r) = Inl (ValueError ''No data returned from server'')
      \<and> all_entry_guids (handle_response r) = Inr (JArr [])"
    using ok by (simp add: handle_2xx_blank first_guid_no_data all_guids_no_data)
  have unparsed: "\<not> list_all is_space (resp_text r) \<Longrightarrow> resp_json r = None \<Longrightarrow>
      first_entry_guid (handle_response r) =
        Inl (NetLedgerApiError (resp_status_code r) (JStr ''Failed to parse response'') JNull)
      \<and> all_entry_guids (handle_response r) =
        Inl (NetLedgerApiError (resp_status_code r) (JStr ''Failed to parse response'') JNull)"
    using ok by (simp add: handle_2xx_body first_entry_guid_def all_entry_guids_def)
  have absent: "\<And>kvs. \<not> list_all is_space (resp_text r) \<Longrightarrow> resp_json r = Some (JObj kvs) \<Longrightarrow>
      map_of kvs ''EntryGuids'' = None \<Longrightarrow>
      first_entry_guid (handle_response r) =
        Inl (ValueError (if kvs = [] then ''No data returned from server''
                         else ''No entry GUID returned from server''))
      \<and> all_entry_guids (handle_response r) = Inr (JArr [])"
    using ok by (simp add: handle_2xx_body first_entry_guid_def all_entry_guids_def)
  have present: "\<And>kvs gs. \<not> list_all is_space (resp_text r) \<Longrightarrow> resp_json r = Some (JObj kvs) \<Longrightarrow>
      map_of kvs ''EntryGuids'' = Some (JArr gs) \<Longrightarrow>
      first_entry_guid (handle_response r) =
        (case gs of [] \<Rightarrow> Inl (ValueError ''No entry GUID returned from server'')
                  | g # _ \<Rightarrow> Inr g)
      \<and> all_entry_guids (handle_response r) = Inr (JArr gs)"
    using ok by (auto simp: handle_2xx_body first_entry_guid_def all_entry_guids_def
                  split: list.splits)
  show ?thesis
    unfolding c1 d1 cs ds using blank unparsed absent present by simp
qed


theorem entry_guid_results_witness:
  "fst (EntryMethods_add_credit sample_client
          (constant_network (Responded (sample_response 200 ''OK'' ''{...}''
             (Some (JObj [(''EntryGuids'', JArr [JStr ''g1'', JStr ''g2''])]))))) []
          ''a1'' (Finite 10) None) = Inr (JStr ''g1'')
   \<and> fst (EntryMethods_add_debits sample_client
          (constant_network (Responded (sample_response 200 ''OK'' ''{...}''
             (Some (JObj [(''EntryGuids'', JArr [JStr ''g1'', JStr ''g2''])]))))) []
          ''a1'' [\<lparr>ei_amount = Finite 10, ei_description = None\<rparr>]) =
       Inr (JArr [JStr ''g1'', JStr ''g2''])
   \<and> fst (EntryMethods_add_debit sample_client
          (constant_network (Responded (sample_response 200 ''OK'' [] None))) []
          ''a1'' (Finite 10) None) = Inl (ValueError ''No data returned from server'')
   \<and> fst (EntryMethods_add_credits sample_client
          (constant_network (Responded (sample_response 200 ''OK'' [] None))) []
          ''a1'' [\<lparr>ei_amount = Finite 10, ei_description = None\<rparr>]) = Inr (JArr [])"
  using
    entry_guid_results [where net = "constant_network (Responded (sample_response 200 ''OK'' ''{...}''
             (Some (JObj [(''EntryGuids'', JArr [JStr ''g1'', JStr ''g2''])]))))"
      and r = "sample_response 200 ''OK'' ''{...}''
             (Some (JObj [(''EntryGuids'', JArr [JStr ''g1'', JStr ''g2''])]))"
      and sent = "[]" and c = sample_client and acct = "''a1''" and amt = "Finite 10"
      and descr = None and entries = "[\<lparr>ei_amount = Finite 10, ei_description = None\<rparr>]"]
    entry_guid_results [where net = "constant_network (Responded (sample_response 200 ''OK'' [] None))"
      and r = "sample_response 200 ''OK'' [] None"
      and sent = "[]" and c = sample_client and acct = "''a1''" and amt = "Finite 10"
      and descr = None and entries = "[\<lparr>ei_amount = Finite 10, ei_description = None\<rparr>]"]
  by (simp add: constant_network_def sample_response_def is_space_def)

text \<open>
  The claim as written covers every answer in \<open>[200, 300)\<close>. A 200 whose body is the
  text \<open>OK\<close> carries no guid: \<open>add_credit\<close> raises an API error, not the generic one,
  and \<open>add_credits\<close> raises it too instead of returning the empty list.
\<close>

theorem unparsed_2xx_entry_guids_counterexample:
  "fst (EntryMethods_add_credit sample_client
          (constant_network (Responded (sample_response 200 ''OK'' ''OK'' None))) []
          ''a1'' (Finite 10) None) =
     Inl (NetLedgerApiError 200 (JStr ''Failed to parse response'') JNull)
   \<and> fst (EntryMethods_add_credits sample_client
          (constant_network (Responded (sample_response 200 ''OK'' ''OK'' None))) []
          ''a1'' [\<lparr>ei_amount = Finite 10, ei_description = None\<rparr>]) =
     Inl (NetLedgerApiError 200 (JStr ''Failed to parse response'') JNull)"
  by (simp add: EntryMethods_add_credit_def EntryMethods_add_credits_def HttpClient_put_def
        HttpClient_request_def constant_network_def sample_response_def handle_response_def
        first_entry_guid_def all_entry_guids_def py_strip_def is_space_def Let_def)

text \<open>
  \<^verbatim>\<open>.get('EntryGuids', [])\<close> falls back to the empty list only when the key is absent:
  an explicit \<^verbatim>\<open>null\<close> is passed on as \<^verbatim>\<open>None\<close> by the batch operations.
\<close>

lemma null_entry_guids_passed_on:
  "fst (EntryMethods_add_credits sample_client
          (constant_network (Responded (sample_response 200 ''OK'' ''{...}''
             (Some (JObj [(''EntryGuids'', JNull)]))))) []
          ''a1'' [\<lparr>ei_amount = Finite 10, ei_description = None\<rparr>]) = Inr JNull"
  by (simp add: EntryMethods_add_credits_def HttpClient_put_def
        HttpClient_request_def constant_network_def sample_response_def handle_response_def
        all_entry_guids_def py_strip_def is_space_def Let_def)

section \<open>Properties of following continuation tokens\<close>

lemma map_result_list_all2:
  "map_result f xs = Inr ys \<longleftrightarrow> list_all2 (\<lambda>x y. f x = Inr y) xs ys"
proof (induction xs arbitrary: ys)
  case Nil
  then show ?case by auto
next
  case (Cons x xs)
  show ?case
  proof (cases ys)
    case Nil
    then show ?thesis by (simp split: sum.splits)
  next
    case (Cons y ys')
    with Cons.IH [of ys'] show ?thesis by (auto split: sum.splits)
  qed
qed

lemma map_result_length: "map_result f xs = Inr ys \<Longrightarrow> length ys = length xs"
  by (simp add: map_result_list_all2 list_all2_lengthD)

lemma map_result_window:
  "map_result f xs = Inr ys \<Longrightarrow> map_result f (take m (drop k xs)) = Inr (take m (drop k ys))"
  by (simp add: map_result_list_all2)

lemma page_decode:
  assumes "map_result f recs = Inr es"
  shows "EnumerationResult_from_dict (enumeration_page enc recs m k) (Some f) =
     Inr \<lparr>total_records = JInt (int (length recs)),
          records_remaining = JInt (int (length recs - (k + length (take m (drop k recs))))),
          end_of_results = JBool (length recs - (k + length (take m (drop k recs))) = 0),
          continuation_token =
            (if length recs - (k + length (take m (drop k recs))) = 0 then JNull
             else JStr (enc (k + length (take m (drop k recs))))),
          objects = (if take m (drop k recs) = [] then ObjNone
                     else ObjDecoded (take m (drop k es)))\<rparr>"
  using map_result_window [OF assms, of m k]
  by (simp add: EnumerationResult_from_dict_def enumeration_page_def Let_def dict_get_def
        del: length_take length_drop take_eq_Nil)

lemma server_answer:
  assumes "0 < max_results q"
  shows "enumeration_server enc dec recs sent (build_request c ''POST'' path
           (JObj (EntryEnumerationQuery_to_dict q))) =
         Responded \<lparr>resp_status_code = 200, resp_reason = Some ''OK'', resp_text = ''{...}'',
            resp_json = Some (enumeration_page enc recs (nat (max_results q))
              (case q_continuation_token q of
                 None \<Rightarrow> 0 | Some t \<Rightarrow> if t = [] then 0 else dec t)),
            resp_headers = no_headers\<rparr>"
  using assms
  by (simp add: enumeration_server_def build_request_def to_dict_lookup split: option.splits)

lemma enumerate_answer:
  assumes "0 < max_results q"
  shows "EntryMethods_enumerate pf c (enumeration_server enc dec recs) sent acct (Some q) =
     (EnumerationResult_from_dict (enumeration_page enc recs (nat (max_results q))
              (case q_continuation_token q of
                 None \<Rightarrow> 0 | Some t \<Rightarrow> if t = [] then 0 else dec t))
          (Some (Entry_from_dict pf)),
      sent @ [build_request c ''POST'' (''/v1/accounts/'' @ acct @ ''/entries/enumerate'')
                (JObj (EntryEnumerationQuery_to_dict q))])"
proof -
  let ?page = "enumeration_page enc recs (nat (max_results q))
              (case q_continuation_token q of
                 None \<Rightarrow> 0 | Some t \<Rightarrow> if t = [] then 0 else dec t)"
  note a = request_answered [where net = "enumeration_server enc dec recs" and sent = sent
      and c = c and verb = "''POST''"
      and path = "''/v1/accounts/'' @ acct @ ''/entries/enumerate''"
      and body = "JObj (EntryEnumerationQuery_to_dict q)", OF server_answer [OF assms]]
  have h: "handle_response \<lparr>resp_status_code = 200, resp_reason = Some ''OK'',
             resp_text = ''{...}'', resp_json = Some ?page, resp_headers = no_headers\<rparr> =
           Inr \<lparr>data = ?page, status_code = 200, request_guid = None\<rparr>"
    by (simp add: handle_response_def py_strip_def is_space_def Let_def no_headers_def)
  have t: "truthy ?page"
    by (simp add: enumeration_page_def Let_def)
  show ?thesis
    unfolding EntryMethods_enumerate_def HttpClient_post_def Let_def option.case a h
    using t by simp
qed


lemma follow_none:
  "objects result = ObjNone \<Longrightarrow>
   follow_pages fuel pf c net acct q result sent = (Some (Inr []), sent)"
  by simp

lemma follow_last:
  "objects result = ObjDecoded (x # xs) \<Longrightarrow> truthy (end_of_results result) \<Longrightarrow>
   follow_pages fuel pf c net acct q result sent = (Some (Inr [result]), sent)"
  by simp

lemma follow_step:
  "objects result = ObjDecoded (x # xs) \<Longrightarrow> \<not> truthy (end_of_results result) \<Longrightarrow>
   truthy (continuation_token result) \<Longrightarrow>
   EntryMethods_enumerate pf c net sent acct
     (Some (next_query q (continuation_token result))) = (Inr result', sent') \<Longrightarrow>
   follow_pages n pf c net acct q result' sent' = (Some (Inr ps), sent'') \<Longrightarrow>
   follow_pages (Suc n) pf c net acct q result sent = (Some (Inr (result # ps)), sent'')"
  by simp

declare follow_pages.simps [simp del]

text \<open>
  The loop started on the page that begins after \<open>k\<close> records: it ends with fuel for
  one request per record left, and the pages it collects hold the records from \<open>k\<close> on.
\<close>

lemma follow_pages_server:
  fixes recs :: "json list" and es :: "Entry list"
  assumes dec: "\<forall>k. dec (enc k) = k" and ne: "\<forall>k. 0 < k \<longrightarrow> enc k \<noteq> []"
    and es: "map_result (Entry_from_dict pf) recs = Inr es"
    and m: "0 < max_results q"
  shows "length recs - k \<le> fuel \<Longrightarrow>
     EnumerationResult_from_dict (enumeration_page enc recs (nat (max_results q)) k)
       (Some (Entry_from_dict pf)) = Inr result \<Longrightarrow>
     \<exists>pages sent' rs.
        follow_pages fuel pf c (enumeration_server enc dec recs) acct q result sent =
          (Some (Inr pages), sent')
        \<and> concat (map page_items pages) = drop k es
        \<and> (\<forall>p\<in>set pages. total_records p = JInt (int (length recs))
              \<and> ((end_of_results p = JBool True) = (records_remaining p = JInt 0)))
        \<and> map records_remaining pages = map JInt rs \<and> sorted_wrt (>) rs
        \<and> (\<forall>r\<in>set rs. 0 \<le> r \<and> r < int (length recs) - int k)
        \<and> (k < length recs \<longrightarrow> pages \<noteq> [] \<and> last rs = 0)"
proof (induction fuel arbitrary: k result sent)
  case 0
  let ?M = "nat (max_results q)"
  have len: "length es = length recs" using es by (rule map_result_length)
  have k: "length recs \<le> k" using "0.prems"(1) by simp
  have R: "objects result = ObjNone"
    using "0.prems"(2) k unfolding page_decode [OF es] by auto
  show ?case
    apply (rule exI [of _ "[]"], rule exI [of _ sent], rule exI [of _ "[]"])
    using follow_none [OF R] k len by simp
next
  case (Suc n)
  let ?M = "nat (max_results q)"
  let ?N = "length recs"
  have M: "0 < ?M" using m by simp
  have len: "length es = ?N" using es by (rule map_result_length)
  note R = Suc.prems(2) [unfolded page_decode [OF es]]
  consider (past) "?N \<le> k" | (final) "k < ?N" "?N \<le> k + ?M" | (further) "k + ?M < ?N"
    by linarith
  then show ?case
  proof cases
    case past
    have "objects result = ObjNone" using R past by auto
    from follow_none [OF this] past len show ?thesis
      by (intro exI [of _ "[]"] exI [of _ sent] conjI) simp_all
  next
    case final
    have ne_page: "drop k es \<noteq> []" using final len by simp
    then obtain x xs where xs: "drop k es = x # xs" by (cases "drop k es") auto
    have tk: "take ?M (drop k es) = drop k es" using final len by simp
    have o: "objects result = ObjDecoded (x # xs)"
      using R final xs tk by auto
    have e: "end_of_results result = JBool True" "records_remaining result = JInt 0"
      "total_records result = JInt (int ?N)"
      using R final by auto
    have f: "follow_pages (Suc n) pf c (enumeration_server enc dec recs) acct q result sent =
               (Some (Inr [result]), sent)"
      using follow_last [OF o] e by simp
    show ?thesis
      apply (rule exI [of _ "[result]"], rule exI [of _ sent], rule exI [of _ "[0]"])
      using f e o xs final by (simp add: page_items_def)
  next
    case further
    let ?d = "k + ?M"
    have lp: "length (take ?M (drop k recs)) = ?M" using further by simp
    have nep: "take ?M (drop k es) \<noteq> []" using further len M by simp
    then obtain x xs where xs: "take ?M (drop k es) = x # xs"
      by (cases "take ?M (drop k es)") auto
    have o: "objects result = ObjDecoded (x # xs)"
      using R further xs M by auto
    have e: "end_of_results result = JBool False"
      "records_remaining result = JInt (int (?N - ?d))"
      "total_records result = JInt (int ?N)"
      "continuation_token result = JStr (enc ?d)"
      using R further lp by auto
    have tok: "truthy (continuation_token result)" using e ne M by simp
    have nq: "max_results (next_query q (continuation_token result)) = max_results q"
      "q_continuation_token (next_query q (continuation_token result)) = Some (enc ?d)"
      using e by (simp_all add: next_query_def)
    have cur: "(case q_continuation_token (next_query q (continuation_token result)) of
                 None \<Rightarrow> 0 | Some t \<Rightarrow> if t = [] then 0 else dec t) = ?d"
      using nq ne dec M by simp
    obtain result' where r': "EnumerationResult_from_dict
        (enumeration_page enc recs ?M ?d) (Some (Entry_from_dict pf)) = Inr result'"
      using page_decode [OF es] by blast
    have call: "EntryMethods_enumerate pf c (enumeration_server enc dec recs) sent acct
        (Some (next_query q (continuation_token result))) =
        (Inr result', sent @ [build_request c ''POST''
           (''/v1/accounts/'' @ acct @ ''/entries/enumerate'')
           (JObj (EntryEnumerationQuery_to_dict (next_query q (continuation_token result))))])"
      (is "_ = (_, ?sent')")
      using enumerate_answer [of "next_query q (continuation_token result)" pf c enc dec recs
          sent acct] m nq(1) cur r' by simp
    have fuel: "?N - ?d \<le> n" using Suc.prems(1) M by linarith
    from Suc.IH [OF fuel r', of ?sent']
    obtain ps sent'' rs where
      f: "follow_pages n pf c (enumeration_server enc dec recs) acct q result' ?sent' =
            (Some (Inr ps), sent'')"
      and cc: "concat (map page_items ps) = drop ?d es"
      and al: "\<forall>p\<in>set ps. total_records p = JInt (int ?N)
              \<and> ((end_of_results p = JBool True) = (records_remaining p = JInt 0))"
      and mp: "map records_remaining ps = map JInt rs" and so: "sorted_wrt (>) rs"
      and bd: "\<forall>r\<in>set rs. 0 \<le> r \<and> r < int ?N - int ?d"
      and la: "?d < ?N \<longrightarrow> ps \<noteq> [] \<and> last rs = 0"
      by blast
    have rsne: "rs \<noteq> []" using la further mp by auto
    have step: "follow_pages (Suc n) pf c (enumeration_server enc dec recs) acct q result sent =
        (Some (Inr (result # ps)), sent'')"
      using follow_step [OF o _ tok call f] e by simp
    have cat: "concat (map page_items (result # ps)) = drop k es"
    proof -
      have "page_items result = take ?M (drop k es)" using o xs by (simp add: page_items_def)
      moreover have "take ?M (drop k es) @ drop ?M (drop k es) = drop k es"
        by (rule append_take_drop_id)
      then have "take ?M (drop k es) @ drop ?d es = drop k es"
        by (simp add: add.commute)
      ultimately show ?thesis using cc by simp
    qed
    have rem: "int (?N - ?d) = int ?N - int ?d" using further by simp
    show ?thesis
      apply (rule exI [of _ "result # ps"], rule exI [of _ sent''],
             rule exI [of _ "int (?N - ?d) # rs"])
      using step cat al mp so bd rsne la e further M by (auto simp: rem)
  qed
qed


text \<open>
  Claim C3. A query with a positive page size and no token is enumerated against the
  endpoint, whose cursors are read back as they were written and are not empty, and whose
  records all decode. With fuel for one request per record the loop ends without error;
  the pages in order, joined, are the decoded records, each once and none left out, as many
  as \<open>total_records\<close> says on every page; \<open>records_remaining\<close> falls strictly from page
  to page and is 0 on the last page; and on every page \<open>end_of_results\<close> is true exactly
  when \<open>records_remaining\<close> is 0.
\<close>

theorem pagination_invariant:
  fixes recs :: "json list" and es :: "Entry list"
  assumes dec: "\<forall>k. dec (enc k) = k" and ne: "\<forall>k. 0 < k \<longrightarrow> enc k \<noteq> []"
    and es: "map_result (Entry_from_dict pf) recs = Inr es"
    and m: "0 < max_results q" and first: "q_continuation_token q = None"
    and fuel: "length recs \<le> fuel"
  shows "\<exists>pages sent' rs.
        enumerate_all_pages fuel pf c (enumeration_server enc dec recs) sent acct q =
          (Some (Inr pages), sent')
        \<and> concat (map page_items pages) = es
        \<and> length es = length recs
        \<and> (\<forall>p\<in>set pages. total_records p = JInt (int (length recs))
              \<and> ((end_of_results p = JBool True) = (records_remaining p = JInt 0)))
        \<and> map records_remaining pages = map JInt rs \<and> sorted_wrt (>) rs
        \<and> (\<forall>r\<in>set rs. 0 \<le> r)
        \<and> (recs \<noteq> [] \<longrightarrow> pages \<noteq> [] \<and> last rs = 0)"
proof -
  obtain result where r: "EnumerationResult_from_dict
      (enumeration_page enc recs (nat (max_results q)) 0) (Some (Entry_from_dict pf)) = Inr result"
    using page_decode [OF es] by blast
  have call: "EntryMethods_enumerate pf c (enumeration_server enc dec recs) sent acct (Some q) =
      (Inr result, sent @ [build_request c ''POST''
         (''/v1/accounts/'' @ acct @ ''/entries/enumerate'')
         (JObj (EntryEnumerationQuery_to_dict q))])"
    (is "_ = (_, ?sent')")
    using enumerate_answer [OF m, of pf c enc dec recs sent acct] first r by simp
  have f: "length recs - 0 \<le> fuel" using fuel by simp
  from follow_pages_server [OF dec ne es m f r, of c acct ?sent']
  obtain pages sent'' rs where
    run: "follow_pages fuel pf c (enumeration_server enc dec recs) acct q result ?sent' =
            (Some (Inr pages), sent'')"
    and rest: "concat (map page_items pages) = drop 0 es"
      "\<forall>p\<in>set pages. total_records p = JInt (int (length recs))
              \<and> ((end_of_results p = JBool True) = (records_remaining p = JInt 0))"
      "map records_remaining pages = map JInt rs" "sorted_wrt (>) rs"
      "\<forall>r\<in>set rs. 0 \<le> r \<and> r < int (length recs) - int 0"
      "0 < length recs \<longrightarrow> pages \<noteq> [] \<and> last rs = 0"
    by blast
  have all: "enumerate_all_pages fuel pf c (enumeration_server enc dec recs) sent acct q =
      (Some (Inr pages), sent'')"
    by (simp only: enumerate_all_pages_def call prod.case sum.case run)
  show ?thesis
    apply (rule exI [of _ pages], rule exI [of _ sent''], rule exI [of _ rs])
    using all rest map_result_length [OF es] by simp
qed

lemma sample_entries_decode:
  "\<exists>es. map_result (Entry_from_dict float_of_number) sample_entries = Inr es"
  by (simp add: sample_entries_def sample_entry_def Entry_from_dict_def decode_entry_type_def
        EntryType_of_int_def type_map_def dict_get_def)

theorem pagination_invariant_witness:
  "\<exists>pages sent' rs.
      enumerate_all_pages 15 float_of_number sample_client
        (enumeration_server sample_enc sample_dec sample_entries) [] ''a1''
        (EntryEnumerationQuery_default\<lparr>max_results := 5, ordering := AMOUNT_ASCENDING\<rparr>) =
        (Some (Inr pages), sent')
      \<and> map_result (Entry_from_dict float_of_number) sample_entries =
          Inr (concat (map page_items pages))
      \<and> length (concat (map page_items pages)) = 15
      \<and> map records_remaining pages = map JInt rs \<and> sorted_wrt (>) rs \<and> last rs = 0"
proof -
  obtain es where es: "map_result (Entry_from_dict float_of_number) sample_entries = Inr es"
    using sample_entries_decode by blast
  have dec: "\<forall>k. sample_dec (sample_enc k) = k"
    by (simp add: sample_dec_def sample_enc_def)
  have ne: "\<forall>k. 0 < k \<longrightarrow> sample_enc k \<noteq> []"
    by (simp add: sample_enc_def)
  have m: "0 < max_results
      (EntryEnumerationQuery_default\<lparr>max_results := 5, ordering := AMOUNT_ASCENDING\<rparr>)"
    by simp
  have first: "q_continuation_token
      (EntryEnumerationQuery_default\<lparr>max_results := 5, ordering := AMOUNT_ASCENDING\<rparr>) = None"
    by (simp add: EntryEnumerationQuery_default_def)
  have fuel: "length sample_entries \<le> 15" by (simp add: sample_entries_def)
  have n: "length sample_entries = 15" "sample_entries \<noteq> []"
    by (simp_all add: sample_entries_def)
  from pagination_invariant [OF dec ne es m first fuel, of sample_client "[]" "''a1''"]
  show ?thesis using es n by auto
qed

end
